theory Spec2Isabelle
  imports Complex_Main "HOL-Library.Log_Nat"
begin

section \<open>JavaScript numbers\<close>

text \<open>
  Every numeric value of \<^verbatim>\<open>src/components/ClickChart.tsx\<close> is a JavaScript
  \<^verbatim>\<open>number\<close>, an IEEE 754 double: \<open>NaN\<close>, an infinity, or a finite real. The
  result of an addition, a multiplication or a division of finite numbers is the
  exact result rounded to the nearest double (\<open>fl\<close> below), a tie going to the even
  significand; a result that rounds to a magnitude of \<open>2 ^ 1024\<close> or more is an
  infinity, and one of magnitude at most \<open>2 powi (- 1075)\<close> is zero. Negative zero
  is identified with zero: the two compare as equal, and the component never
  divides by zero, every divisor being the literal 3600 or a difference that is
  guarded to be greater than zero.
\<close>

datatype jsnum = NaN | NInf | Fin real | PInf

text \<open>
  The binary exponent of a positive real: \<open>2 powi expo a \<le> a < 2 powi (expo a + 1)\<close>.
\<close>

definition expo :: "real \<Rightarrow> int" where
  "expo a = (if 1 \<le> a then bitlen \<lfloor>a\<rfloor> - 1 else - bitlen (\<lceil>1 / a\<rceil> - 1))"

text \<open>Rounding to the nearest integer, a tie going to the even one.\<close>

definition rne :: "real \<Rightarrow> int" where
  "rne m = (if m - of_int \<lfloor>m\<rfloor> < 1 / 2 then \<lfloor>m\<rfloor>
            else if 1 / 2 < m - of_int \<lfloor>m\<rfloor> then \<lfloor>m\<rfloor> + 1
            else if even \<lfloor>m\<rfloor> then \<lfloor>m\<rfloor> else \<lfloor>m\<rfloor> + 1)"

text \<open>
  The spacing of the doubles around a positive real: 53 significant bits, and the
  fixed spacing \<open>2 powi (- 1074)\<close> of the subnormal range below \<open>2 powi (- 1022)\<close>.
\<close>

definition ulp :: "real \<Rightarrow> real" where
  "ulp a = 2 powi (max (expo a) (- 1022) - 52)"

text \<open>A positive real rounded to the nearest multiple of the spacing.\<close>

definition rmag :: "real \<Rightarrow> real" where
  "rmag a = of_int (rne (a / ulp a)) * ulp a"

text \<open>A real rounded to a double.\<close>

definition fl :: "real \<Rightarrow> jsnum" where
  "fl x = (if x = 0 then Fin 0
           else if 2 ^ 1024 \<le> rmag \<bar>x\<bar> then (if 0 < x then PInf else NInf)
           else Fin (if 0 < x then rmag \<bar>x\<bar> else - rmag \<bar>x\<bar>))"

text \<open>\<^verbatim>\<open>Number.MAX_VALUE\<close>, the largest finite double.\<close>

definition max_value :: real where
  "max_value = (2 ^ 53 - 1) * 2 ^ 971"

text \<open>\<^verbatim>\<open>- a\<close>\<close>

fun js_neg :: "jsnum \<Rightarrow> jsnum" where
  "js_neg NaN = NaN"
| "js_neg NInf = PInf"
| "js_neg (Fin a) = Fin (- a)"
| "js_neg PInf = NInf"

text \<open>\<^verbatim>\<open>a + b\<close>\<close>

fun js_add :: "jsnum \<Rightarrow> jsnum \<Rightarrow> jsnum" where
  "js_add NaN _ = NaN"
| "js_add _ NaN = NaN"
| "js_add PInf NInf = NaN"
| "js_add NInf PInf = NaN"
| "js_add PInf _ = PInf"
| "js_add _ PInf = PInf"
| "js_add NInf _ = NInf"
| "js_add _ NInf = NInf"
| "js_add (Fin a) (Fin b) = fl (a + b)"

text \<open>\<^verbatim>\<open>a - b\<close>\<close>

definition js_sub :: "jsnum \<Rightarrow> jsnum \<Rightarrow> jsnum" where
  "js_sub a b = js_add a (js_neg b)"

text \<open>The sign of a number that is not \<open>NaN\<close>, used by multiplication.\<close>

fun js_sign :: "jsnum \<Rightarrow> real" where
  "js_sign NaN = 0"
| "js_sign NInf = - 1"
| "js_sign (Fin a) = sgn a"
| "js_sign PInf = 1"

text \<open>\<^verbatim>\<open>a * b\<close>: an infinity times zero is \<open>NaN\<close>.\<close>

fun js_mul :: "jsnum \<Rightarrow> jsnum \<Rightarrow> jsnum" where
  "js_mul NaN _ = NaN"
| "js_mul _ NaN = NaN"
| "js_mul (Fin a) (Fin b) = fl (a * b)"
| "js_mul x y =
     (if js_sign x * js_sign y = 0 then NaN
      else if 0 < js_sign x * js_sign y then PInf else NInf)"

text \<open>\<^verbatim>\<open>a / b\<close>: a finite number divided by zero is an infinity, zero by zero is \<open>NaN\<close>.\<close>

fun js_div :: "jsnum \<Rightarrow> jsnum \<Rightarrow> jsnum" where
  "js_div NaN _ = NaN"
| "js_div _ NaN = NaN"
| "js_div (Fin a) (Fin b) =
     (if b = 0 then (if a = 0 then NaN else if 0 < a then PInf else NInf)
      else fl (a / b))"
| "js_div (Fin a) _ = Fin 0"
| "js_div PInf (Fin b) = (if 0 \<le> b then PInf else NInf)"
| "js_div NInf (Fin b) = (if 0 \<le> b then NInf else PInf)"
| "js_div _ _ = NaN"

text \<open>\<^verbatim>\<open>a > b\<close>: false as soon as one side is \<open>NaN\<close>.\<close>

fun js_gt :: "jsnum \<Rightarrow> jsnum \<Rightarrow> bool" where
  "js_gt NaN _ = False"
| "js_gt _ NaN = False"
| "js_gt (Fin a) (Fin b) = (b < a)"
| "js_gt PInf PInf = False"
| "js_gt PInf _ = True"
| "js_gt NInf _ = False"
| "js_gt (Fin a) NInf = True"
| "js_gt (Fin a) PInf = False"


definition js_le :: "jsnum \<Rightarrow> jsnum \<Rightarrow> bool" where
  "js_le a b = (a \<noteq> NaN \<and> b \<noteq> NaN \<and> \<not> js_gt a b)"

definition js_ge :: "jsnum \<Rightarrow> jsnum \<Rightarrow> bool" where
  "js_ge a b = js_le b a"

text \<open>\<^verbatim>\<open>Math.max(a, b)\<close>: \<open>NaN\<close> as soon as one argument is \<open>NaN\<close>.\<close>

definition js_max :: "jsnum \<Rightarrow> jsnum \<Rightarrow> jsnum" where
  "js_max a b = (if a = NaN \<or> b = NaN then NaN else if js_gt b a then b else a)"

text \<open>
  \<^verbatim>\<open>Math.round(a)\<close>: the nearest integer, a tie going up. The result is exact: an
  integer below \<open>2 ^ 53\<close> is a double, and a double of that magnitude or more is
  an integer already.
\<close>

fun js_round :: "jsnum \<Rightarrow> jsnum" where
  "js_round (Fin a) = Fin (of_int \<lfloor>a + 1 / 2\<rfloor>)"
| "js_round x = x"

section \<open>The component's state\<close>

text \<open>\<^verbatim>\<open>interface ChartDataPoint { time; distance; reference }\<close>\<close>

record ChartDataPoint =
  time_pt :: jsnum
  distance_pt :: jsnum
  reference_pt :: jsnum

text \<open>
  The \<^verbatim>\<open>useState\<close> cells of \<^verbatim>\<open>ClickChart\<close>. The cells \<^verbatim>\<open>catchUpTime\<close> and
  \<^verbatim>\<open>requiredSpeed\<close> are rewritten by an effect after every render in which one of
  the other cells has changed, so they are functions of the record below.
  The history \<^verbatim>\<open>chartData\<close> is a list of samples, bounded only by the length
  of the session.
\<close>

record state =
  isRunning :: bool
  speed :: jsnum
  referenceSpeed :: jsnum
  time :: jsnum
  distance :: jsnum
  chartData :: "ChartDataPoint list"
  targetTime :: jsnum

definition init :: state where
  "init = \<lparr> isRunning = False, speed = Fin 5, referenceSpeed = Fin 6, time = Fin 0,
            distance = Fin 0,
            chartData = [\<lparr> time_pt = Fin 0, distance_pt = Fin 0, reference_pt = Fin 0 \<rparr>],
            targetTime = Fin 3600 \<rparr>"

section \<open>The tick\<close>

text \<open>
  The callback given to \<^verbatim>\<open>setInterval\<close>. Its three updaters read the cell they
  update from the state at the firing (\<open>st\<close>), and \<^verbatim>\<open>speed\<close>, \<^verbatim>\<open>time\<close>,
  \<^verbatim>\<open>distance\<close> and \<^verbatim>\<open>referenceSpeed\<close> from the render that installed the
  timer (\<open>r\<close>).
\<close>

definition interval_callback :: "state \<Rightarrow> state \<Rightarrow> state" where
  "interval_callback r st =
     st \<lparr> time := js_add (time st) (Fin 1),
          distance := js_add (distance st) (js_div (speed r) (Fin 3600)),
          chartData := chartData st @
            [\<lparr> time_pt = js_add (time r) (Fin 1),
               distance_pt = js_add (distance r) (js_div (speed r) (Fin 3600)),
               reference_pt = js_div (js_mul (js_add (time r) (Fin 1)) (referenceSpeed r)) (Fin 3600) \<rparr>] \<rparr>"

text \<open>
  The timer exists only while \<^verbatim>\<open>isRunning\<close> holds. The effect that installs it
  lists every cell the callback reads among its dependencies, so each render
  replaces the timer and the callback that fires was installed by the latest
  render: \<open>r\<close> is the state itself.
\<close>

definition tick :: "state \<Rightarrow> state" where
  "tick st = (if isRunning st then interval_callback st st else st)"

section \<open>The estimators\<close>

text \<open>Reading a field of \<^verbatim>\<open>chartData[chartData.length - 1]\<close> throws on an empty array.\<close>

datatype error = TypeError

text \<open>The constants of the effect that computes the two estimates.\<close>

definition distanceDiff :: "state \<Rightarrow> jsnum" where
  "distanceDiff st = js_sub (reference_pt (last (chartData st))) (distance_pt (last (chartData st)))"

definition speedDiff :: "state \<Rightarrow> jsnum" where
  "speedDiff st = js_sub (speed st) (referenceSpeed st)"

definition catchUpTimeSeconds :: "state \<Rightarrow> jsnum" where
  "catchUpTimeSeconds st = js_round (js_mul (js_div (distanceDiff st) (speedDiff st)) (Fin 3600))"

definition catchUpTime :: "state \<Rightarrow> error + jsnum option" where
  "catchUpTime st =
     (if js_gt (speed st) (referenceSpeed st) then
        (case chartData st of
           [] \<Rightarrow> Inl TypeError
         | _ # _ \<Rightarrow>
            Inr (Some (if js_gt (catchUpTimeSeconds st) (Fin 0) then catchUpTimeSeconds st
                       else Fin 0)))
      else Inr None)"

definition remainingTime :: "state \<Rightarrow> jsnum" where
  "remainingTime st = js_sub (targetTime st) (time st)"

definition distanceToGo :: "state \<Rightarrow> jsnum" where
  "distanceToGo st =
     js_sub (js_div (js_mul (referenceSpeed st) (targetTime st)) (Fin 3600)) (distance st)"

definition requiredSpeedValue :: "state \<Rightarrow> jsnum" where
  "requiredSpeedValue st = js_mul (js_div (distanceToGo st) (remainingTime st)) (Fin 3600)"

definition requiredSpeed :: "state \<Rightarrow> jsnum option" where
  "requiredSpeed st =
     (if js_gt (remainingTime st) (Fin 0) then
        (if js_gt (requiredSpeedValue st) (Fin 0) then Some (requiredSpeedValue st) else None)
      else None)"

section \<open>The controls\<close>

definition handleStart :: "state \<Rightarrow> state" where
  "handleStart st = st \<lparr> isRunning := True \<rparr>"

definition handleStop :: "state \<Rightarrow> state" where
  "handleStop st = st \<lparr> isRunning := False \<rparr>"

definition handleSpeedChange :: "jsnum \<Rightarrow> state \<Rightarrow> state" where
  "handleSpeedChange change st = st \<lparr> speed := js_max (Fin 0) (js_add (speed st) change) \<rparr>"

definition handleReferenceSpeedChange :: "jsnum \<Rightarrow> state \<Rightarrow> state" where
  "handleReferenceSpeedChange change st =
     st \<lparr> referenceSpeed := js_max (Fin 0) (js_add (referenceSpeed st) change) \<rparr>"

text \<open>The minus and plus buttons of the target time.\<close>

definition targetTimeMinus :: "state \<Rightarrow> state" where
  "targetTimeMinus st = st \<lparr> targetTime := js_max (Fin 60) (js_sub (targetTime st) (Fin 60)) \<rparr>"

definition targetTimePlus :: "state \<Rightarrow> state" where
  "targetTimePlus st = st \<lparr> targetTime := js_add (targetTime st) (Fin 60) \<rparr>"

text \<open>
  The two input fields. The argument is what \<^verbatim>\<open>parseInt(e.target.value)\<close>, or
  \<^verbatim>\<open>parseFloat(e.target.value)\<close>, has returned: a number, or \<open>NaN\<close> for a text
  that does not start with one (the empty field).
\<close>

definition targetTimeEntry :: "jsnum \<Rightarrow> state \<Rightarrow> state" where
  "targetTimeEntry parsed st = st \<lparr> targetTime := js_mul parsed (Fin 60) \<rparr>"

definition referenceSpeedEntry :: "jsnum \<Rightarrow> state \<Rightarrow> state" where
  "referenceSpeedEntry parsed st = st \<lparr> referenceSpeed := parsed \<rparr>"

text \<open>
  What can happen to the component: a click, an edit of a field, or the timer.
  The buttons of the speeds pass the literals \<^verbatim>\<open>0.1\<close> and \<^verbatim>\<open>-0.1\<close>: the double
  nearest to one tenth, and its negation.
\<close>

datatype event =
    Start | Stop
  | SpeedMinus | SpeedPlus
  | ReferenceMinus | ReferencePlus
  | TargetMinus | TargetPlus
  | TargetEntry jsnum
  | ReferenceEntry jsnum
  | Tick

fun step :: "event \<Rightarrow> state \<Rightarrow> state" where
  "step Start st = handleStart st"
| "step Stop st = handleStop st"
| "step SpeedMinus st = handleSpeedChange (js_neg (fl (1 / 10))) st"
| "step SpeedPlus st = handleSpeedChange (fl (1 / 10)) st"
| "step ReferenceMinus st = handleReferenceSpeedChange (js_neg (fl (1 / 10))) st"
| "step ReferencePlus st = handleReferenceSpeedChange (fl (1 / 10)) st"
| "step TargetMinus st = targetTimeMinus st"
| "step TargetPlus st = targetTimePlus st"
| "step (TargetEntry parsed) st = targetTimeEntry parsed st"
| "step (ReferenceEntry parsed) st = referenceSpeedEntry parsed st"
| "step Tick st = tick st"

fun run :: "event list \<Rightarrow> state \<Rightarrow> state" where
  "run [] st = st"
| "run (e # es) st = run es (step e st)"

text \<open>
  The data model's words for a speed: a positive real, a non-negative real; and a
  non-negative real that is no larger than \<^verbatim>\<open>Number.MAX_VALUE\<close>, as every
  non-negative finite double is.
\<close>

fun positive_real :: "jsnum \<Rightarrow> bool" where
  "positive_real (Fin a) = (0 < a)"
| "positive_real _ = False"

fun nonneg_real :: "jsnum \<Rightarrow> bool" where
  "nonneg_real (Fin a) = (0 \<le> a)"
| "nonneg_real _ = False"

fun nonneg_finite :: "jsnum \<Rightarrow> bool" where
  "nonneg_finite (Fin a) = (0 \<le> a \<and> a \<le> max_value)"
| "nonneg_finite _ = False"

text \<open>
  An event other than a direct entry of a reference speed that is not a
  non-negative finite number.
\<close>

fun nonneg_entry :: "event \<Rightarrow> bool" where
  "nonneg_entry (ReferenceEntry parsed) = nonneg_finite parsed"
| "nonneg_entry _ = True"

text \<open>A finite number without a fractional part.\<close>

fun integer_valued :: "jsnum \<Rightarrow> bool" where
  "integer_valued (Fin a) = (a = of_int \<lfloor>a\<rfloor>)"
| "integer_valued _ = False"



section \<open>Rounding to a double\<close>

lemma of_int_le_pow2: "(c::int) \<le> 2 ^ n \<Longrightarrow> real_of_int c \<le> 2 ^ n"
  by simp

lemma pow2_le_of_int: "2 ^ n \<le> (c::int) \<Longrightarrow> 2 ^ n \<le> real_of_int c"
  by simp

lemma expo_bounds:
  assumes "0 < a"
  shows "2 powi (expo a) \<le> a" and "a < 2 powi (expo a + 1)"
proof -
  have "2 powi (expo a) \<le> a \<and> a < 2 powi (expo a + 1)"
  proof (cases "1 \<le> a")
    case True
    define n where "n = \<lfloor>a\<rfloor>"
    have n: "0 < n" using True by (simp add: n_def)
    then have b1: "1 \<le> bitlen n" by (simp add: bitlen_alt_def)
    from bitlen_bounds [OF n] have lo: "2 ^ nat (bitlen n - 1) \<le> n" and hi: "n < 2 ^ nat (bitlen n)"
      by simp_all
    have e: "expo a = bitlen n - 1" using True by (simp add: expo_def n_def)
    have "(2::real) powi (bitlen n - 1) = 2 ^ nat (bitlen n - 1)"
      using b1 by (simp add: power_int_def)
    also have "\<dots> \<le> of_int n" using lo by simp
    also have "\<dots> \<le> a" by (simp add: n_def)
    finally have 1: "2 powi (expo a) \<le> a" by (simp add: e)
    have "n + 1 \<le> 2 ^ nat (bitlen n)" using hi by simp
    then have "of_int (n + 1) \<le> (2::real) ^ nat (bitlen n)" by (rule of_int_le_pow2)
    moreover have "a < of_int (n + 1)" unfolding n_def by linarith
    ultimately have "a < 2 ^ nat (bitlen n)" by linarith
    also have "(2::real) ^ nat (bitlen n) = 2 powi (bitlen n)"
      using b1 by (simp add: power_int_def)
    finally have 2: "a < 2 powi (expo a + 1)" by (simp add: e)
    from 1 2 show ?thesis ..
  next
    case False
    define c where "c = \<lceil>1 / a\<rceil>"
    define k where "k = bitlen (c - 1)"
    have y1: "1 < 1 / a" using False assms by simp
    then have c2: "2 \<le> c" unfolding c_def by linarith
    then have n: "0 < c - 1" by simp
    then have b1: "1 \<le> k" by (simp add: bitlen_alt_def k_def)
    from bitlen_bounds [OF n] have lo: "2 ^ nat (k - 1) \<le> c - 1" and hi: "c - 1 < 2 ^ nat k"
      by (simp_all add: k_def)
    have e: "expo a = - k" using False by (simp add: expo_def c_def k_def)
    have "c \<le> 2 ^ nat k" using hi by simp
    then have "of_int c \<le> (2::real) ^ nat k" by simp
    moreover have "1 / a \<le> of_int c" by (simp add: c_def)
    ultimately have "1 / a \<le> 2 ^ nat k" by linarith
    then have "1 \<le> 2 ^ nat k * a" using assms by (simp add: field_simps)
    then have "1 / 2 ^ nat k \<le> a" by (simp add: field_simps)
    moreover have "(2::real) powi (- k) = 1 / 2 ^ nat k"
      using b1 by (simp add: power_int_def field_simps)
    ultimately have 1: "2 powi (expo a) \<le> a" by (simp add: e)
    have "(2::real) ^ nat (k - 1) \<le> of_int (c - 1)" using lo by (rule pow2_le_of_int)
    moreover have "of_int (c - 1) < 1 / a" unfolding c_def by linarith
    ultimately have "2 ^ nat (k - 1) < 1 / a" by linarith
    then have "2 ^ nat (k - 1) * a < 1" using assms by (simp add: field_simps)
    then have "a < 1 / 2 ^ nat (k - 1)" by (simp add: field_simps)
    moreover have "(2::real) powi (- k + 1) = 1 / 2 ^ nat (k - 1)"
    proof -
      have "- k + 1 = - (k - 1)" by simp
      then have "(2::real) powi (- k + 1) = inverse (2 powi (k - 1))"
        by (simp only: power_int_minus)
      also have "(2::real) powi (k - 1) = 2 ^ nat (k - 1)" using b1 by (simp add: power_int_def)
      finally show ?thesis by (simp add: field_simps)
    qed
    ultimately have 2: "a < 2 powi (expo a + 1)" by (simp add: e)
    from 1 2 show ?thesis ..
  qed
  then show "2 powi (expo a) \<le> a" and "a < 2 powi (expo a + 1)" by simp_all
qed

lemma rne_error: "\<bar>of_int (rne m) - m\<bar> \<le> 1 / 2"
  unfolding rne_def by (auto simp: abs_if) linarith+

lemma rne_of_int: "rne (of_int k) = k"
  by (simp add: rne_def)

lemma rne_mono: "m \<le> m' \<Longrightarrow> rne m \<le> rne m'"
proof -
  assume le: "m \<le> m'"
  have f: "\<lfloor>m\<rfloor> \<le> \<lfloor>m'\<rfloor>" using le by (rule floor_mono)
  show ?thesis
  proof (cases "\<lfloor>m\<rfloor> = \<lfloor>m'\<rfloor>")
    case True
    then show ?thesis using le unfolding rne_def by auto
  next
    case False
    with f have "\<lfloor>m\<rfloor> + 1 \<le> \<lfloor>m'\<rfloor>" by simp
    moreover have "rne m \<le> \<lfloor>m\<rfloor> + 1" unfolding rne_def by auto
    moreover have "\<lfloor>m'\<rfloor> \<le> rne m'" unfolding rne_def by auto
    ultimately show ?thesis by linarith
  qed
qed

lemma ulp_pos: "0 < ulp a"
  by (simp add: ulp_def)

lemma rmag_nonneg: "0 \<le> a \<Longrightarrow> 0 \<le> rmag a"
proof -
  assume "0 \<le> a"
  then have "0 \<le> a / ulp a" using ulp_pos [of a] by simp
  then have "rne 0 \<le> rne (a / ulp a)" by (rule rne_mono)
  then have "0 \<le> rne (a / ulp a)" by (simp add: rne_def)
  then show ?thesis unfolding rmag_def using ulp_pos [of a] by simp
qed

lemma rmag_error: "\<bar>rmag a - a\<bar> \<le> ulp a / 2"
proof -
  have "rmag a - a = (of_int (rne (a / ulp a)) - a / ulp a) * ulp a"
    using ulp_pos [of a] by (simp add: rmag_def field_simps)
  then have "\<bar>rmag a - a\<bar> = \<bar>of_int (rne (a / ulp a)) - a / ulp a\<bar> * ulp a"
    using ulp_pos [of a] by (simp add: abs_mult)
  also have "\<dots> \<le> 1 / 2 * ulp a"
    by (rule mult_right_mono [OF rne_error]) (simp add: ulp_pos less_imp_le)
  finally show ?thesis by simp
qed

lemma pow2i_less_iff: "((2::real) powi m < 2 powi n) = (m < n)"
proof
  assume "(2::real) powi m < 2 powi n"
  show "m < n"
  proof (rule ccontr)
    assume "\<not> m < n"
    then have "n \<le> m" by simp
    then have "(2::real) powi n \<le> 2 powi m" by (rule power_int_increasing) simp
    with \<open>(2::real) powi m < 2 powi n\<close> show False by simp
  qed
next
  assume "m < n"
  then show "(2::real) powi m < 2 powi n" by (rule power_int_strict_increasing) simp
qed

lemma pow2i_le_iff: "((2::real) powi m \<le> 2 powi n) = (m \<le> n)"
  using pow2i_less_iff [of n m] by auto

lemma pow2i_half: "(2::real) powi (k - 1) = 2 powi k / 2"
  by (simp add: power_int_diff)

lemma expo_le: "0 < a \<Longrightarrow> a < 2 powi k \<Longrightarrow> expo a < k"
proof -
  assume a: "0 < a" and lt: "a < 2 powi k"
  have "(2::real) powi (expo a) < 2 powi k"
    using expo_bounds(1) [OF a] lt by linarith
  then show ?thesis by (simp add: pow2i_less_iff)
qed

lemma expo_ge: "0 < a \<Longrightarrow> 2 powi k \<le> a \<Longrightarrow> k \<le> expo a"
proof -
  assume a: "0 < a" and le: "2 powi k \<le> a"
  have "(2::real) powi k < 2 powi (expo a + 1)"
    using expo_bounds(2) [OF a] le by linarith
  then have "k < expo a + 1" by (simp add: pow2i_less_iff)
  then show ?thesis by simp
qed

lemma expo_mono: "0 < a \<Longrightarrow> a \<le> b \<Longrightarrow> expo a \<le> expo b"
proof -
  assume a: "0 < a" and le: "a \<le> b"
  then have b: "0 < b" by simp
  have "2 powi (expo a) \<le> b" using expo_bounds(1) [OF a] le by linarith
  then show ?thesis by (rule expo_ge [OF b])
qed

lemma ulp_half_le: "0 < a \<Longrightarrow> ulp a / 2 \<le> a / 2 ^ 53 + 2 powi (- 1075)"
proof (cases "- 1022 \<le> expo a")
  case True
  assume a: "0 < a"
  have "ulp a = 2 powi (expo a - 52)" using True by (simp add: ulp_def max_def)
  also have "\<dots> = 2 powi (expo a) / 2 ^ 52" by (simp add: power_int_diff)
  finally have "ulp a / 2 = 2 powi (expo a) / 2 ^ 53" by simp
  also have "\<dots> \<le> a / 2 ^ 53" using expo_bounds(1) [OF a] by (simp add: divide_right_mono)
  finally show ?thesis by (simp add: add_increasing2)
next
  case False
  assume a: "0 < a"
  have u: "ulp a = 2 powi (- 1074)" using False by (simp add: ulp_def max_def)
  have "(2::real) powi (- 1075) = 2 powi (- 1074 - 1)" by simp
  also have "\<dots> = 2 powi (- 1074) / 2" by (rule pow2i_half)
  finally have "ulp a / 2 = 2 powi (- 1075)" by (simp add: u)
  then show ?thesis using a by simp
qed

lemma fl_pos: "0 < x \<Longrightarrow> fl x = (if 2 ^ 1024 \<le> rmag x then PInf else Fin (rmag x))"
  by (simp add: fl_def)

lemma fl_neg: "x < 0 \<Longrightarrow> fl x = (if 2 ^ 1024 \<le> rmag (- x) then NInf else Fin (- rmag (- x)))"
  by (simp add: fl_def)

lemma fl_zero: "fl 0 = Fin 0"
  by (simp add: fl_def)

lemma fl_not_NaN: "fl x \<noteq> NaN"
  by (simp add: fl_def)

lemma ulp_eq: "ulp a = 2 powi (max (expo a) (- 1022)) / 2 ^ 52"
  by (simp add: ulp_def power_int_diff)

lemma rne_ge: "of_int k \<le> m \<Longrightarrow> k \<le> rne m"
  using rne_mono [of "of_int k" m] by (simp add: rne_of_int)

lemma rne_le: "m \<le> of_int k \<Longrightarrow> rne m \<le> k"
  using rne_mono [of m "of_int k"] by (simp add: rne_of_int)

lemma rmag_upper:
  assumes "0 < a"
  shows "rmag a \<le> 2 powi (max (expo a) (- 1022) + 1)"
proof -
  let ?e = "max (expo a) (- 1022)"
  have "a < 2 powi (expo a + 1)" by (rule expo_bounds(2) [OF assms])
  also have "\<dots> \<le> 2 powi (?e + 1)" by (simp add: pow2i_le_iff)
  finally have a: "a \<le> 2 powi (?e + 1)" by simp
  have p: "(2::real) powi (?e + 1) = 2 powi ?e * 2" by (simp add: power_int_add)
  have "a / ulp a \<le> 2 powi (?e + 1) / ulp a"
    using a ulp_pos [of a] by (simp add: divide_right_mono)
  also have "\<dots> = of_int (2 ^ 53)" by (simp add: ulp_eq p)
  finally have "rne (a / ulp a) \<le> 2 ^ 53" by (rule rne_le)
  then have "of_int (rne (a / ulp a)) \<le> (2::real) ^ 53" by (rule of_int_le_pow2)
  then have "rmag a \<le> 2 ^ 53 * ulp a"
    unfolding rmag_def using ulp_pos [of a] by (simp add: mult_right_mono)
  also have "\<dots> = 2 powi (?e + 1)" by (simp add: ulp_eq p)
  finally show ?thesis .
qed

lemma rmag_lower:
  assumes "0 < a" and "- 1022 \<le> expo a"
  shows "2 powi (expo a) \<le> rmag a"
proof -
  have u: "ulp a = 2 powi (expo a) / 2 ^ 52" using assms(2) by (simp add: ulp_eq max_def)
  have "2 powi (expo a) / ulp a \<le> a / ulp a"
    using expo_bounds(1) [OF assms(1)] ulp_pos [of a] by (simp add: divide_right_mono)
  moreover have "2 powi (expo a) / ulp a = of_int (2 ^ 52)" by (simp add: u)
  ultimately have "of_int (2 ^ 52) \<le> a / ulp a" by simp
  then have "2 ^ 52 \<le> rne (a / ulp a)" by (rule rne_ge)
  then have "(2::real) ^ 52 \<le> of_int (rne (a / ulp a))" by (rule pow2_le_of_int)
  then have "2 ^ 52 * ulp a \<le> rmag a"
    unfolding rmag_def using ulp_pos [of a] by (simp add: mult_right_mono)
  then show ?thesis by (simp add: u)
qed

lemma rmag_mono:
  assumes "0 < a" and "a \<le> b"
  shows "rmag a \<le> rmag b"
proof -
  let ?ea = "max (expo a) (- 1022)" and ?eb = "max (expo b) (- 1022)"
  have b: "0 < b" using assms by simp
  have le: "?ea \<le> ?eb" using expo_mono [OF assms] by simp
  show ?thesis
  proof (cases "?ea = ?eb")
    case True
    then have u: "ulp a = ulp b" by (simp add: ulp_def)
    have "a / ulp b \<le> b / ulp b" using assms(2) ulp_pos [of b] by (simp add: divide_right_mono)
    then have "rne (a / ulp b) \<le> rne (b / ulp b)" by (rule rne_mono)
    then have "(of_int (rne (a / ulp b)) :: real) \<le> of_int (rne (b / ulp b))" by simp
    then show ?thesis
      unfolding rmag_def u using ulp_pos [of b] by (simp add: mult_right_mono)
  next
    case False
    with le have lt: "?ea < ?eb" by linarith
    then have eb: "- 1022 \<le> expo b" "?eb = expo b" by linarith+
    have "rmag a \<le> 2 powi (?ea + 1)" by (rule rmag_upper [OF assms(1)])
    also have "\<dots> \<le> 2 powi (expo b)"
    proof (rule pow2i_le_iff [THEN iffD2])
      show "?ea + 1 \<le> expo b" using lt eb(2) by linarith
    qed
    also have "\<dots> \<le> rmag b" by (rule rmag_lower [OF b eb(1)])
    finally show ?thesis .
  qed
qed

lemma rmag_exact:
  assumes "a / ulp a = of_int k"
  shows "rmag a = a"
proof -
  have "rmag a = of_int (rne (of_int k)) * ulp a" by (simp only: rmag_def assms)
  also have "\<dots> = a / ulp a * ulp a" by (simp only: rne_of_int assms)
  also have "\<dots> = a" using ulp_pos [of a] by simp
  finally show ?thesis .
qed

lemma rmag_finite:
  assumes "0 < a" and "a \<le> 2 ^ 1023"
  shows "rmag a < 2 ^ 1024"
proof -
  have "rmag a - a \<le> ulp a / 2" using rmag_error [of a] by linarith
  also have "\<dots> \<le> a / 2 ^ 53 + 2 powi (- 1075)" by (rule ulp_half_le [OF assms(1)])
  finally have 1: "rmag a \<le> a + a / 2 ^ 53 + 2 powi (- 1075)" by simp
  have "(2::real) powi (- 1075) \<le> 2 powi 0" by (rule pow2i_le_iff [THEN iffD2]) simp
  then have 2: "(2::real) powi (- 1075) \<le> 1" by simp
  have 3: "a / 2 ^ 53 \<le> 2 ^ 1023 / 2 ^ 53" using assms(2) by (simp add: divide_right_mono)
  have "rmag a \<le> 2 ^ 1023 + 2 ^ 1023 / 2 ^ 53 + (1::real)"
    using 1 2 3 assms(2) by linarith
  also have "\<dots> < 2 ^ 1024" by simp
  finally show ?thesis .
qed

lemma fl_error:
  assumes "\<bar>x\<bar> \<le> 2 ^ 1023"
  shows "\<exists>y. fl x = Fin y \<and> \<bar>y - x\<bar> \<le> \<bar>x\<bar> / 2 ^ 53 + 2 powi (- 1075)"
proof (cases "x = 0")
  case True
  then show ?thesis by (simp add: fl_zero)
next
  case False
  then have a: "0 < \<bar>x\<bar>" by simp
  have fin: "\<not> 2 ^ 1024 \<le> rmag \<bar>x\<bar>" using rmag_finite [OF a assms] by simp
  have err: "\<bar>rmag \<bar>x\<bar> - \<bar>x\<bar>\<bar> \<le> \<bar>x\<bar> / 2 ^ 53 + 2 powi (- 1075)"
    using rmag_error [of "\<bar>x\<bar>"] ulp_half_le [OF a] by linarith
  show ?thesis
  proof (cases "0 < x")
    case True
    then show ?thesis using fin err by (simp add: fl_def)
  next
    case neg: False
    then have "x < 0" using False by simp
    then have "fl x = Fin (- rmag \<bar>x\<bar>)" using fin by (simp add: fl_def)
    moreover have "\<bar>- rmag \<bar>x\<bar> - x\<bar> = \<bar>rmag \<bar>x\<bar> - \<bar>x\<bar>\<bar>" using \<open>x < 0\<close> by simp
    ultimately show ?thesis using err by simp
  qed
qed

lemma fl_minus: "fl (- x) = js_neg (fl x)"
  by (simp add: fl_def)

lemma fl_nat:
  assumes "k \<le> 2 ^ 53"
  shows "fl (real k) = Fin (real k)"
proof (cases "k = 0")
  case True
  then show ?thesis by (simp add: fl_zero)
next
  case False
  let ?a = "real k"
  have a: "0 < ?a" and a1: "1 \<le> ?a" using False by simp_all
  have ub: "?a \<le> 2 ^ 53" using assms by (metis of_nat_le_iff of_nat_numeral of_nat_power)
  have e0: "0 \<le> expo ?a" using expo_ge [OF a, of 0] a1 by simp
  have "?a < 2 powi 54" using ub by simp
  then have e53: "expo ?a \<le> 53" using expo_le [OF a, of 54] by simp
  have u: "ulp ?a = 2 powi (expo ?a - 52)" using e0 by (simp add: ulp_def max_def)
  have "\<exists>j. ?a / ulp ?a = of_int j"
  proof (cases "expo ?a \<le> 52")
    case True
    have "?a / ulp ?a = ?a * 2 powi (52 - expo ?a)"
      by (simp add: u power_int_diff)
    also have "(2::real) powi (52 - expo ?a) = 2 ^ nat (52 - expo ?a)"
      using True by (simp add: power_int_def)
    also have "?a * 2 ^ nat (52 - expo ?a) = of_int (int k * 2 ^ nat (52 - expo ?a))" by simp
    finally show ?thesis by blast
  next
    case False
    with e53 have e: "expo ?a = 53" by simp
    have "2 powi 53 \<le> ?a" using expo_bounds(1) [OF a] by (simp add: e)
    with ub have k: "?a = 2 ^ 53" by simp
    have u2: "ulp ?a = 2" by (simp add: u e)
    have "?a / ulp ?a = ?a / 2" by (simp only: u2)
    also have "\<dots> = 2 ^ 53 / 2" by (simp only: k)
    also have "\<dots> = of_int (2 ^ 52)" by simp
    finally show ?thesis by blast
  qed
  then have r: "rmag ?a = ?a" by (auto dest: rmag_exact)
  have "?a < 2 ^ 1024" using ub by (rule le_less_trans) simp
  then show ?thesis using a r by (simp add: fl_pos)
qed

lemma expo_eq: "0 < a \<Longrightarrow> 2 powi e \<le> a \<Longrightarrow> a < 2 powi (e + 1) \<Longrightarrow> expo a = e"
  using expo_ge [of a e] expo_le [of a "e + 1"] by simp

text \<open>Rounding a positive real whose binary exponent is known.\<close>

lemma fl_eval:
  assumes "2 powi e \<le> a" and "a < 2 powi (e + 1)" and "- 1022 \<le> e"
  shows "fl a = (if (2::real) ^ 1024 \<le> of_int (rne (a / 2 powi (e - 52))) * 2 powi (e - 52) then PInf
                 else Fin (of_int (rne (a / 2 powi (e - 52))) * 2 powi (e - 52)))"
proof -
  have "(0::real) < 2 powi e" by simp
  with assms(1) have a: "0 < a" by linarith
  have e: "expo a = e" by (rule expo_eq [OF a assms(1,2)])
  have u: "ulp a = 2 powi (e - 52)" using assms(3) by (simp add: ulp_def e max_def)
  show ?thesis using a by (simp only: fl_pos rmag_def u)
qed

text \<open>The integers up to \<open>2 ^ 53\<close> are doubles.\<close>

lemma fl_numeral: "numeral k \<le> (2::nat) ^ 53 \<Longrightarrow> fl (numeral k) = Fin (numeral k)"
  using fl_nat [of "numeral k"] by simp

lemma fl_neg_numeral: "numeral k \<le> (2::nat) ^ 53 \<Longrightarrow> fl (- numeral k) = Fin (- numeral k)"
  using fl_numeral [of k] by (simp add: fl_minus)

lemma fl_one: "fl 1 = Fin 1"
  using fl_nat [of 1] by simp

lemmas fl_ints = fl_zero fl_one fl_numeral fl_neg_numeral

text \<open>Rounding keeps the sign, and the order against a double.\<close>

lemma fl_nonneg: "0 \<le> x \<Longrightarrow> fl x = PInf \<or> (\<exists>y. fl x = Fin y \<and> 0 \<le> y)"
  using rmag_nonneg [of x] by (cases "x = 0") (simp_all add: fl_zero fl_pos)

lemma fl_nonpos: "x \<le> 0 \<Longrightarrow> fl x = NInf \<or> (\<exists>y. fl x = Fin y \<and> y \<le> 0)"
  using rmag_nonneg [of "- x"] by (cases "x = 0") (simp_all add: fl_zero fl_neg)

lemma fl_ge:
  assumes "0 < a" and "fl a = Fin a" and "a \<le> x"
  shows "fl x = PInf \<or> (\<exists>y. fl x = Fin y \<and> a \<le> y)"
proof -
  have r: "rmag a = a" using assms(1,2) by (simp add: fl_pos split: if_splits)
  have "rmag a \<le> rmag x" by (rule rmag_mono [OF assms(1,3)])
  then show ?thesis using assms(1,3) r by (simp add: fl_pos)
qed

lemma fl_le:
  assumes "0 < x" and "x \<le> b" and "fl b = Fin b'"
  shows "\<exists>y. fl x = Fin y \<and> 0 \<le> y \<and> y \<le> b'"
proof -
  have b: "0 < b" using assms(1,2) by simp
  have r: "rmag b = b'" "\<not> 2 ^ 1024 \<le> rmag b" using assms(3) b by (simp_all add: fl_pos split: if_splits)
  have "rmag x \<le> rmag b" by (rule rmag_mono [OF assms(1,2)])
  then show ?thesis using assms(1) r rmag_nonneg [of x] by (simp add: fl_pos)
qed

lemma tenth: "fl (1 / 10) = Fin (3602879701896397 / 36028797018963968)"
  by (subst fl_eval [where e = "- 4"]) (simp_all add: rne_def)

lemma fl_max_value: "fl (max_value + 1) = Fin max_value"
  by (subst fl_eval [where e = 1023]) (simp_all add: max_value_def rne_def)

lemma fl_int: "\<bar>k\<bar> \<le> 2 ^ 53 \<Longrightarrow> fl (of_int k) = Fin (of_int k)"
proof (cases "0 \<le> k")
  case True
  assume "\<bar>k\<bar> \<le> 2 ^ 53"
  with True have "nat k \<le> 2 ^ 53" by (simp add: nat_le_iff)
  from fl_nat [OF this] True show ?thesis by simp
next
  case False
  assume "\<bar>k\<bar> \<le> 2 ^ 53"
  with False have "nat (- k) \<le> 2 ^ 53" by (simp add: nat_le_iff)
  from fl_nat [OF this] False have "fl (- of_int k) = Fin (- of_int k)" by simp
  then show ?thesis by (simp add: fl_minus) (cases "fl (of_int k)"; simp)
qed


lemma eta_le: "(2::real) powi (- 1075) \<le> 1 / 2 ^ 60"
proof -
  have "(2::real) powi (- 1075) \<le> 2 powi (- 60)" by (rule pow2i_le_iff [THEN iffD2]) simp
  then show ?thesis by (simp add: power_int_minus field_simps)
qed

section \<open>The roundings of the examples\<close>

text \<open>
  The roundings met by the runs that illustrate the theorems below, each
  computed from the binary exponent of its argument.
\<close>

lemma fl_ex_1: "fl (3843071682022823 / 9223372036854775808) = Fin (3843071682022823 / 9223372036854775808)"
  by (subst fl_eval [where e = "- 12"]) (simp_all add: rne_def)

lemma fl_ex_2: "fl (3843071682022823 / 4611686018427387904) = Fin (3843071682022823 / 4611686018427387904)"
  by (subst fl_eval [where e = "- 11"]) (simp_all add: rne_def)

lemma fl_ex_3: "fl (1 / 720) = Fin (6405119470038039 / 4611686018427387904)"
  by (subst fl_eval [where e = "- 10"]) (simp_all add: rne_def)

lemma fl_ex_4: "fl (6405119470038039 / 4611686018427387904) = Fin (6405119470038039 / 4611686018427387904)"
  by (subst fl_eval [where e = "- 10"]) (simp_all add: rne_def)

lemma fl_ex_5: "fl (1 / 600) = Fin (7686143364045647 / 4611686018427387904)"
  by (subst fl_eval [where e = "- 10"]) (simp_all add: rne_def)

lemma fl_ex_6: "fl (7 / 3600) = Fin (4483583629026627 / 2305843009213693952)"
  by (subst fl_eval [where e = "- 10"]) (simp_all add: rne_def)

lemma fl_ex_7: "fl (1 / 450) = Fin (5124095576030431 / 2305843009213693952)"
  by (subst fl_eval [where e = "- 9"]) (simp_all add: rne_def)

lemma fl_ex_8: "fl (6405119470038039 / 2305843009213693952) = Fin (6405119470038039 / 2305843009213693952)"
  by (subst fl_eval [where e = "- 9"]) (simp_all add: rne_def)

lemma fl_ex_9: "fl (1 / 300) = Fin (7686143364045647 / 2305843009213693952)"
  by (subst fl_eval [where e = "- 9"]) (simp_all add: rne_def)

lemma fl_ex_10: "fl (19215358410114117 / 4611686018427387904) = Fin (4803839602528529 / 1152921504606846976)"
  by (subst fl_eval [where e = "- 8"]) (simp_all add: rne_def)

lemma fl_ex_11: "fl (1 / 200) = Fin (5764607523034235 / 1152921504606846976)"
  by (subst fl_eval [where e = "- 8"]) (simp_all add: rne_def)

lemma fl_ex_12: "fl (25620477880152155 / 4611686018427387904) = Fin (6405119470038039 / 1152921504606846976)"
  by (subst fl_eval [where e = "- 8"]) (simp_all add: rne_def)

lemma fl_ex_13: "fl (1 / 150) = Fin (7686143364045647 / 1152921504606846976)"
  by (subst fl_eval [where e = "- 8"]) (simp_all add: rne_def)

lemma fl_ex_14: "fl (1 / 144) = Fin (2001599834386887 / 288230376151711744)"
  by (subst fl_eval [where e = "- 8"]) (simp_all add: rne_def)

lemma fl_ex_15: "fl (32025597350190195 / 4611686018427387904) = Fin (8006399337547549 / 1152921504606846976)"
  by (subst fl_eval [where e = "- 8"]) (simp_all add: rne_def)

lemma fl_ex_16: "fl (1 / 120) = Fin (4803839602528529 / 576460752303423488)"
  by (subst fl_eval [where e = "- 7"]) (simp_all add: rne_def)

lemma fl_ex_17: "fl (1 / 2) = Fin (1 / 2)"
  by (subst fl_eval [where e = "- 1"]) (simp_all add: rne_def)

lemma fl_ex_18: "fl (864691128455135175 / 576460752303423488) = Fin (3 / 2)"
  by (subst fl_eval [where e = "0"]) (simp_all add: rne_def)

lemma fl_ex_19: "fl (1152921504606846975 / 144115188075855872) = Fin (8)"
  by (subst fl_eval [where e = "2"]) (simp_all add: rne_def)

lemma fl_ex_20: "fl (6250000000000000068619147684002846358780769354831990396050667681447349087806968221072708061155918056191328104357573282225724392733946255520519188074884127876954479031433314199106093106224284940208649029135312573651681101638309073601755699736669216132673998135736525944080737680825492079560930357214388944896 / 225) = Fin (27777777777777778256001794353790411911974661805923305064691444941455018645682640221886679218762766515794614968380508085008640256264804125574914966825317795836739680963039679454360906249111898043074700671535676298057242113578589284873324850836660959625153122656055059535074190636633787857281087631920201728)"
  by (subst fl_eval [where e = "1011"]) (simp_all add: rne_def)

lemma fl_ex_21: "fl (128102389400760777316530122030895970226019713223010618757528538257075999124483791105858438387237656356715978263800744625193473303915230672437589068247267630116573104299594962959300290545669336504037594782547687007359609173080312128157814329514234162819974350754790959867085510354921130868488711535863139982597332496317060073 / 4611686018427387904) = Fin (27777777777777778256001794353790411911974661805923305064691444941455018645682640221886679218762766515794614968380508085008640256264804125574914966825317795836739680963039679454360906249111898043074700671535676298057242113578589284873324850836660959625153122656055059535074190636633787857281087631920201728)"
  by (subst fl_eval [where e = "1011"]) (simp_all add: rne_def)

lemma fl_ex_22: "fl (55555555555555556512003588707580823823949323611846610129382889882910037291365280443773358437525533031589229936761016170017280512529608251149829933650635591673479361926079358908721812498223796086149401343071352596114484227157178569746649701673321919250306245312110119070148381273267575714562175263840403456) = Fin (55555555555555556512003588707580823823949323611846610129382889882910037291365280443773358437525533031589229936761016170017280512529608251149829933650635591673479361926079358908721812498223796086149401343071352596114484227157178569746649701673321919250306245312110119070148381273267575714562175263840403456)"
  by (subst fl_eval [where e = "1012"]) (simp_all add: rne_def)

lemma fl_ex_23: "fl (100000000000000000000000000000000000000000000000000000000000000000000000000000000000000000000000000000000000000000000000000000000000000000000000000000000000000000000000000000000000000000000000000000000000000000000000000000000000000000000000000000000000000000000000000000000000000000000000000000000000000000000) = Fin (100000000000000001097906362944045541740492309677311846336810682903157585404911491537163328978494688899061249669721172515611590283743140088328307009198146046031271664502933027185697489699588559043338384466165001178426897626212945177628091195786707458122783970171784415105291802893207873272974885715430223118336)"
  by (subst fl_eval [where e = "1023"]) (simp_all add: rne_def)

lemma fl_ex_24: "fl (100000000000000001097906362944045541740492309677311846336810682903157585404911491537163328978494688899061249669721172515611590283743140088328307009198146046031271664502933027185697489699588559043338384466165001178426897626212945177628091195786707458122783970171784415105291802893207873272974885715430223118336) = Fin (100000000000000001097906362944045541740492309677311846336810682903157585404911491537163328978494688899061249669721172515611590283743140088328307009198146046031271664502933027185697489699588559043338384466165001178426897626212945177628091195786707458122783970171784415105291802893207873272974885715430223118336)"
  by (subst fl_eval [where e = "1023"]) (simp_all add: rne_def)

lemma fl_ex_25: "fl (200000000000000003443212919347290965766217565002647796465778403578476134248915009597584090375091918913721227772339658212062209845106589704139387761142288130024525702933885692071398524993605665910137844835056869346012143217765842851087938926023958909301102483123596428652534172583763272572423830949825452441600) = PInf"
  by (subst fl_eval [where e = "1024"]) (simp_all add: rne_def)

lemma fl_ex_26: "fl (360000000000000003952462906598563950265772314838322646812518458451367307457681369533787984322580880036620498810996221056201725021475304317981905233113325765712577992210558897868510962918518812556018184078194004242336831454366602639461128304832146849242022292618423894379050490415548343782709588575548803226009600) = PInf"
  by (subst fl_eval [where e = "1034"]) (simp_all add: rne_def)

lemmas fl_examples =
  fl_ex_1 fl_ex_2 fl_ex_3 fl_ex_4 fl_ex_5 fl_ex_6 fl_ex_7 fl_ex_8 fl_ex_9 fl_ex_10
  fl_ex_11 fl_ex_12 fl_ex_13 fl_ex_14 fl_ex_15 fl_ex_16 fl_ex_17 fl_ex_18 fl_ex_19
  fl_ex_20 fl_ex_21 fl_ex_22 fl_ex_23 fl_ex_24 fl_ex_25 fl_ex_26

section \<open>The steps of the component\<close>

lemmas control_defs =
  handleStart_def handleStop_def handleSpeedChange_def handleReferenceSpeedChange_def
  targetTimeMinus_def targetTimePlus_def targetTimeEntry_def referenceSpeedEntry_def
  tick_def interval_callback_def

lemma tick_running:
  "isRunning st \<Longrightarrow>
   tick st = st \<lparr> time := js_add (time st) (Fin 1),
      distance := js_add (distance st) (js_div (speed st) (Fin 3600)),
      chartData := chartData st @
        [\<lparr> time_pt = js_add (time st) (Fin 1),
           distance_pt = js_add (distance st) (js_div (speed st) (Fin 3600)),
           reference_pt = js_div (js_mul (js_add (time st) (Fin 1)) (referenceSpeed st)) (Fin 3600) \<rparr>] \<rparr>"
  by (simp add: tick_def interval_callback_def)

lemma run_append: "run (es1 @ es2) st = run es2 (run es1 st)"
  by (induction es1 arbitrary: st) simp_all

lemma run_snoc: "run (es @ [e]) st = step e (run es st)"
  by (simp add: run_append)

lemma replicate_snoc: "replicate (Suc n) x = replicate n x @ [x]"
  by (simp add: replicate_append_same)

lemma step_chartData:
  "chartData (step e st) =
     (if e = Tick \<and> isRunning st then
        chartData st @
          [\<lparr> time_pt = js_add (time st) (Fin 1),
             distance_pt = js_add (distance st) (js_div (speed st) (Fin 3600)),
             reference_pt = js_div (js_mul (js_add (time st) (Fin 1)) (referenceSpeed st)) (Fin 3600) \<rparr>]
      else chartData st)"
  by (cases e) (simp_all add: control_defs)

lemma step_time:
  "time (step e st) = (if e = Tick \<and> isRunning st then js_add (time st) (Fin 1) else time st)"
  by (cases e) (simp_all add: control_defs)

lemma step_distance:
  "distance (step e st) =
     (if e = Tick \<and> isRunning st then js_add (distance st) (js_div (speed st) (Fin 3600))
      else distance st)"
  by (cases e) (simp_all add: control_defs)

section \<open>Comparisons and maxima\<close>

lemma js_le_iff: "a \<noteq> NaN \<Longrightarrow> b \<noteq> NaN \<Longrightarrow> js_le a b = (\<not> js_gt a b)"
  by (simp add: js_le_def)

lemma js_max_zero: "c \<noteq> NaN \<Longrightarrow> js_max (Fin 0) c = (if js_gt c (Fin 0) then c else Fin 0)"
  by (simp add: js_max_def)

lemma js_max_fl: "js_max (Fin 0) (fl x) = fl (max 0 x)"
proof (cases "0 \<le> x")
  case True
  then show ?thesis using fl_nonneg [of x] by (auto simp: js_max_def max_def)
next
  case False
  then have "x \<le> 0" by simp
  from fl_nonpos [OF this] False show ?thesis by (auto simp: js_max_def max_def fl_zero)
qed

lemma js_round_cases: "js_round x = NaN \<or> js_round x = NInf \<or> js_round x = PInf \<or> integer_valued (js_round x)"
  by (cases x) simp_all

lemma js_sub_NaN: "js_sub NaN b = NaN" "js_sub a NaN = NaN"
  by (cases a; simp add: js_sub_def)+

lemma js_gt_NaN_right: "\<not> js_gt a NaN"
  by (cases a) simp_all

lemma js_mul_NaN_right: "js_mul a NaN = NaN"
  by (cases a) simp_all

lemma js_gt_not_NaN: "js_gt a b \<Longrightarrow> a \<noteq> NaN"
  by (cases a) simp_all

lemma js_sub_not_NaN: "a \<noteq> NaN \<Longrightarrow> js_sub a (Fin b) \<noteq> NaN"
  by (cases a) (simp_all add: js_sub_def fl_not_NaN)

lemma js_max_ge: "b \<noteq> NaN \<Longrightarrow> js_ge (js_max (Fin c) b) (Fin c)"
  by (cases b) (simp_all add: js_max_def js_ge_def js_le_def)

lemma max_value_pos: "0 \<le> max_value"
  by (simp add: max_value_def)

lemma js_max_zero_Fin: "0 \<le> y \<Longrightarrow> js_max (Fin 0) (Fin y) = Fin y"
  by (simp add: js_max_def)

lemma js_max_zero_nonpos: "y \<le> 0 \<Longrightarrow> js_max (Fin 0) (Fin y) = Fin 0"
  by (simp add: js_max_def)

lemma nonneg_finite_real: "nonneg_finite x \<Longrightarrow> nonneg_real x"
  by (cases x) simp_all

section \<open>The catch-up estimate\<close>

lemma catchUpTime_None:
  "chartData st \<noteq> [] \<Longrightarrow>
   (catchUpTime st = Inr None) = (\<not> js_gt (speed st) (referenceSpeed st))"
  by (cases "chartData st") (simp_all add: catchUpTime_def)

lemma catchUpTime_Some:
  "chartData st \<noteq> [] \<Longrightarrow> js_gt (speed st) (referenceSpeed st) \<Longrightarrow>
   catchUpTime st = Inr (Some (if js_gt (catchUpTimeSeconds st) (Fin 0) then catchUpTimeSeconds st
                               else Fin 0))"
  by (cases "chartData st") (simp_all add: catchUpTime_def)

lemma clamp_range:
  "js_ge (if js_gt (js_round x) (Fin 0) then js_round x else Fin 0) (Fin 0) \<and>
   (integer_valued (if js_gt (js_round x) (Fin 0) then js_round x else Fin 0) \<or>
    (if js_gt (js_round x) (Fin 0) then js_round x else Fin 0) = PInf)"
  by (cases x) (simp_all add: js_ge_def js_le_def)

text \<open>
  C1: in a state whose history is not empty, the catch-up estimate is "not
  applicable" exactly when \<^verbatim>\<open>speed > referenceSpeed\<close> is false; for speeds that
  are numbers, that is \<^verbatim>\<open>speed <= referenceSpeed\<close>. When
  \<^verbatim>\<open>speed > referenceSpeed\<close> holds, the estimate is
  \<^verbatim>\<open>Math.round(distanceDiff / speedDiff * 3600)\<close>, computed in doubles from the last
  sample of the history, or 0 when that number is not greater than 0; unless
  that number is \<open>NaN\<close>, this is \<^verbatim>\<open>Math.max(0, ...)\<close> of it. The estimate is never
  negative, and it is an integer or \<open>Infinity\<close>.
\<close>

theorem catch_up_estimate:
  assumes "chartData st \<noteq> []"
  shows "(catchUpTime st = Inr None) = (\<not> js_gt (speed st) (referenceSpeed st)) \<and>
         (speed st \<noteq> NaN \<and> referenceSpeed st \<noteq> NaN \<longrightarrow>
            (catchUpTime st = Inr None) = js_le (speed st) (referenceSpeed st)) \<and>
         (js_gt (speed st) (referenceSpeed st) \<longrightarrow>
            catchUpTime st = Inr (Some (if js_gt (catchUpTimeSeconds st) (Fin 0)
                                        then catchUpTimeSeconds st else Fin 0)) \<and>
            (catchUpTimeSeconds st \<noteq> NaN \<longrightarrow>
               catchUpTime st = Inr (Some (js_max (Fin 0) (catchUpTimeSeconds st))))) \<and>
         catchUpTimeSeconds st =
           js_round (js_mul (js_div (js_sub (reference_pt (last (chartData st)))
                                            (distance_pt (last (chartData st))))
                                    (js_sub (speed st) (referenceSpeed st))) (Fin 3600)) \<and>
         (\<forall>v. catchUpTime st = Inr (Some v) \<longrightarrow>
            js_ge v (Fin 0) \<and> (integer_valued v \<or> v = PInf))"
proof -
  have none: "(catchUpTime st = Inr None) = (\<not> js_gt (speed st) (referenceSpeed st))"
    by (rule catchUpTime_None [OF assms])
  have le: "speed st \<noteq> NaN \<and> referenceSpeed st \<noteq> NaN \<longrightarrow>
      (catchUpTime st = Inr None) = js_le (speed st) (referenceSpeed st)"
    using none by (simp add: js_le_iff)
  have val: "js_gt (speed st) (referenceSpeed st) \<longrightarrow>
      catchUpTime st = Inr (Some (if js_gt (catchUpTimeSeconds st) (Fin 0)
                                  then catchUpTimeSeconds st else Fin 0)) \<and>
      (catchUpTimeSeconds st \<noteq> NaN \<longrightarrow>
         catchUpTime st = Inr (Some (js_max (Fin 0) (catchUpTimeSeconds st))))"
    using catchUpTime_Some [OF assms] by (simp add: js_max_zero)
  have form: "catchUpTimeSeconds st =
      js_round (js_mul (js_div (js_sub (reference_pt (last (chartData st)))
                                       (distance_pt (last (chartData st))))
                               (js_sub (speed st) (referenceSpeed st))) (Fin 3600))"
    by (simp add: catchUpTimeSeconds_def distanceDiff_def speedDiff_def)
  have range: "\<forall>v. catchUpTime st = Inr (Some v) \<longrightarrow>
      js_ge v (Fin 0) \<and> (integer_valued v \<or> v = PInf)"
  proof (intro allI impI)
    fix v assume v: "catchUpTime st = Inr (Some v)"
    then have gt: "js_gt (speed st) (referenceSpeed st)"
      using none by (cases "js_gt (speed st) (referenceSpeed st)") auto
    from catchUpTime_Some [OF assms gt] v
    have "v = (if js_gt (catchUpTimeSeconds st) (Fin 0) then catchUpTimeSeconds st else Fin 0)"
      by simp
    then show "js_ge v (Fin 0) \<and> (integer_valued v \<or> v = PInf)"
      unfolding catchUpTimeSeconds_def using clamp_range by simp
  qed
  show ?thesis using none le val form range by blast
qed

text \<open>
  At 6 miles per hour against a reference of 5, one mile behind: caught up in
  3600 seconds.
\<close>

theorem catch_up_estimate_witness:
  "catchUpTime (init \<lparr> speed := Fin 6, referenceSpeed := Fin 5,
      chartData := chartData init @
        [\<lparr> time_pt = Fin 3600, distance_pt = Fin 5, reference_pt = Fin 6 \<rparr>] \<rparr>)
     = Inr (Some (Fin 3600))"
  using catch_up_estimate [where
      st = "init \<lparr> speed := Fin 6, referenceSpeed := Fin 5,
        chartData := chartData init @
          [\<lparr> time_pt = Fin 3600, distance_pt = Fin 5, reference_pt = Fin 6 \<rparr>] \<rparr>"]
  by (simp add: catchUpTimeSeconds_def distanceDiff_def speedDiff_def js_sub_def fl_ints js_max_def)

text \<open>
  Where the estimate is not what C1 says. With the field of the reference speed
  emptied, the reference speed is \<open>NaN\<close>: the estimate is "not applicable" although
  \<^verbatim>\<open>speed <= referenceSpeed\<close> is false. With a reference speed of 8 typed, a start,
  one tick and then 3 typed, the estimate is 2, where the formula evaluated over
  the reals on the stored sample gives 1. With \<^verbatim>\<open>1e308\<close> typed, a start, one tick
  and then 4.5 typed, the estimate is \<open>Infinity\<close>, not an integer. With the field
  emptied, a start, one tick and then 3 typed, the reference of the last sample is
  \<open>NaN\<close> and the estimate is 0, where \<^verbatim>\<open>Math.max(0, NaN)\<close> is \<open>NaN\<close>.
\<close>

theorem catch_up_counterexample:
  "catchUpTime (run [ReferenceEntry NaN] init) = Inr None \<and>
   \<not> js_le (speed (run [ReferenceEntry NaN] init)) (referenceSpeed (run [ReferenceEntry NaN] init)) \<and>
   catchUpTime (run [ReferenceEntry (Fin 8), Start, Tick, ReferenceEntry (Fin 3)] init)
     = Inr (Some (Fin 2)) \<and>
   speed (run [ReferenceEntry (Fin 8), Start, Tick, ReferenceEntry (Fin 3)] init) = Fin 5 \<and>
   referenceSpeed (run [ReferenceEntry (Fin 8), Start, Tick, ReferenceEntry (Fin 3)] init) = Fin 3 \<and>
   reference_pt (last (chartData (run [ReferenceEntry (Fin 8), Start, Tick, ReferenceEntry (Fin 3)] init)))
     = Fin (5124095576030431 / 2305843009213693952) \<and>
   distance_pt (last (chartData (run [ReferenceEntry (Fin 8), Start, Tick, ReferenceEntry (Fin 3)] init)))
     = Fin (6405119470038039 / 4611686018427387904) \<and>
   max 0 (round ((5124095576030431 / 2305843009213693952 - 6405119470038039 / 4611686018427387904)
                 / (5 - 3) * 3600 :: real)) = 1 \<and>
   catchUpTime (run [ReferenceEntry (fl (10 ^ 308)), Start, Tick, ReferenceEntry (Fin (9 / 2))] init)
     = Inr (Some PInf) \<and>
   catchUpTime (run [ReferenceEntry NaN, Start, Tick, ReferenceEntry (Fin 3)] init)
     = Inr (Some (Fin 0)) \<and>
   js_max (Fin 0) (catchUpTimeSeconds (run [ReferenceEntry NaN, Start, Tick, ReferenceEntry (Fin 3)] init))
     = NaN"
proof -
  have nan: "catchUpTime (run [ReferenceEntry NaN] init) = Inr None"
    "\<not> js_le (speed (run [ReferenceEntry NaN] init)) (referenceSpeed (run [ReferenceEntry NaN] init))"
    by (simp_all add: referenceSpeedEntry_def catchUpTime_def js_le_def init_def)
  let ?st = "run [ReferenceEntry (Fin 8), Start, Tick, ReferenceEntry (Fin 3)] init"
  have st: "speed ?st = Fin 5" "referenceSpeed ?st = Fin 3"
    "reference_pt (last (chartData ?st)) = Fin (5124095576030431 / 2305843009213693952)"
    "distance_pt (last (chartData ?st)) = Fin (6405119470038039 / 4611686018427387904)"
    by (simp_all add: init_def control_defs fl_ints fl_examples)
  have two: "catchUpTime ?st = Inr (Some (Fin 2))"
    by (simp add: init_def control_defs catchUpTime_def catchUpTimeSeconds_def distanceDiff_def
        speedDiff_def js_sub_def fl_ints fl_examples)
  have one: "max 0 (round ((5124095576030431 / 2305843009213693952
      - 6405119470038039 / 4611686018427387904) / (5 - 3) * 3600 :: real)) = 1"
    by (simp add: round_def)
  have inf: "catchUpTime (run [ReferenceEntry (fl (10 ^ 308)), Start, Tick,
      ReferenceEntry (Fin (9 / 2))] init) = Inr (Some PInf)"
    by (simp add: init_def control_defs catchUpTime_def catchUpTimeSeconds_def distanceDiff_def
        speedDiff_def js_sub_def fl_ints fl_examples)
  let ?sn = "run [ReferenceEntry NaN, Start, Tick, ReferenceEntry (Fin 3)] init"
  have zero: "catchUpTime ?sn = Inr (Some (Fin 0))"
    "js_max (Fin 0) (catchUpTimeSeconds ?sn) = NaN"
    by (simp_all add: init_def control_defs catchUpTime_def catchUpTimeSeconds_def distanceDiff_def
        speedDiff_def js_sub_def js_max_def fl_ints fl_examples)
  show ?thesis using nan st two one inf zero by blast
qed

section \<open>The required speed\<close>

lemma requiredSpeed_None:
  "(requiredSpeed st = None) =
     (\<not> (js_gt (remainingTime st) (Fin 0) \<and> js_gt (requiredSpeedValue st) (Fin 0)))"
  by (simp add: requiredSpeed_def)

lemma required_scenario:
  "requiredSpeed (init \<lparr> targetTime := Fin 3600, referenceSpeed := Fin 6,
                         time := Fin 1800, distance := Fin 2 \<rparr>) = Some (Fin 8)"
  by (simp add: requiredSpeed_def requiredSpeedValue_def distanceToGo_def remainingTime_def
      js_sub_def fl_ints fl_examples)

text \<open>
  C2: the required speed is "not applicable" exactly when
  \<^verbatim>\<open>remainingTime > 0\<close> or \<^verbatim>\<open>requiredSpeedValue > 0\<close> is false; when neither number
  is \<open>NaN\<close>, that is \<^verbatim>\<open>remainingTime <= 0\<close> or \<^verbatim>\<open>requiredSpeedValue <= 0\<close>.
  Otherwise it is that value,
  \<^verbatim>\<open>(referenceSpeed * targetTime / 3600 - distance) / (targetTime - time) * 3600\<close>
  computed in doubles. A target of 3600 seconds at a reference of 6, after 1800
  seconds and 2 miles, asks for 8 miles per hour.
\<close>

theorem required_speed_estimate:
  "(requiredSpeed st = None) =
     (\<not> (js_gt (remainingTime st) (Fin 0) \<and> js_gt (requiredSpeedValue st) (Fin 0))) \<and>
   (remainingTime st \<noteq> NaN \<and> requiredSpeedValue st \<noteq> NaN \<longrightarrow>
      (requiredSpeed st = None) =
        (js_le (remainingTime st) (Fin 0) \<or> js_le (requiredSpeedValue st) (Fin 0))) \<and>
   (js_gt (remainingTime st) (Fin 0) \<and> js_gt (requiredSpeedValue st) (Fin 0) \<longrightarrow>
      requiredSpeed st = Some (requiredSpeedValue st)) \<and>
   remainingTime st = js_sub (targetTime st) (time st) \<and>
   requiredSpeedValue st =
     js_mul (js_div (js_sub (js_div (js_mul (referenceSpeed st) (targetTime st)) (Fin 3600))
                            (distance st))
                    (js_sub (targetTime st) (time st))) (Fin 3600) \<and>
   requiredSpeed (init \<lparr> targetTime := Fin 3600, referenceSpeed := Fin 6,
                         time := Fin 1800, distance := Fin 2 \<rparr>) = Some (Fin 8)"
proof -
  have le: "remainingTime st \<noteq> NaN \<and> requiredSpeedValue st \<noteq> NaN \<longrightarrow>
      (requiredSpeed st = None) =
        (js_le (remainingTime st) (Fin 0) \<or> js_le (requiredSpeedValue st) (Fin 0))"
    by (simp add: requiredSpeed_None js_le_iff)
  have val: "js_gt (remainingTime st) (Fin 0) \<and> js_gt (requiredSpeedValue st) (Fin 0) \<longrightarrow>
      requiredSpeed st = Some (requiredSpeedValue st)"
    by (simp add: requiredSpeed_def)
  have form: "requiredSpeedValue st =
     js_mul (js_div (js_sub (js_div (js_mul (referenceSpeed st) (targetTime st)) (Fin 3600))
                            (distance st))
                    (js_sub (targetTime st) (time st))) (Fin 3600)"
    by (simp add: requiredSpeedValue_def distanceToGo_def remainingTime_def)
  have rem: "remainingTime st = js_sub (targetTime st) (time st)"
    by (simp add: remainingTime_def)
  show ?thesis
    using requiredSpeed_None [of st] le val rem form required_scenario by blast
qed

text \<open>
  Once the target time has elapsed there is no required speed; half way through
  it, two miles done, it is 8 miles per hour.
\<close>

theorem required_speed_estimate_witness:
  "requiredSpeed (init \<lparr> time := Fin 3600 \<rparr>) = None \<and>
   requiredSpeed (init \<lparr> time := Fin 1800, distance := Fin 2 \<rparr>) = Some (Fin 8)"
  using required_speed_estimate [where st = "init \<lparr> time := Fin 3600 \<rparr>"]
    required_speed_estimate [where st = "init \<lparr> time := Fin 1800, distance := Fin 2 \<rparr>"]
  by (simp add: init_def requiredSpeedValue_def distanceToGo_def remainingTime_def
      js_sub_def fl_ints fl_examples)

text \<open>
  Where the required speed is not what C2 says. With the field of the target time
  emptied, the target time is \<open>NaN\<close>: the required speed is "not applicable"
  although neither \<^verbatim>\<open>remainingTime <= 0\<close> nor \<^verbatim>\<open>requiredSpeedValue <= 0\<close> holds. With
  \<^verbatim>\<open>1e308\<close> typed as the reference speed, the product
  \<^verbatim>\<open>referenceSpeed * targetTime\<close> overflows and the required speed is \<open>Infinity\<close>,
  which the formula over the reals never gives.
\<close>

theorem required_speed_counterexample:
  "requiredSpeed (run [TargetEntry NaN] init) = None \<and>
   \<not> js_le (remainingTime (run [TargetEntry NaN] init)) (Fin 0) \<and>
   \<not> js_le (requiredSpeedValue (run [TargetEntry NaN] init)) (Fin 0) \<and>
   requiredSpeed (run [ReferenceEntry (fl (10 ^ 308))] init) = Some PInf"
  by (simp add: targetTimeEntry_def referenceSpeedEntry_def requiredSpeed_def
      requiredSpeedValue_def distanceToGo_def remainingTime_def js_sub_def js_le_def init_def
      fl_ints fl_examples)

section \<open>The accumulated distance\<close>









section \<open>The reference distance\<close>

text \<open>
  C4: the reference of the sample that a tick appends is
  \<^verbatim>\<open>(time + 1) * referenceSpeed / 3600\<close>, the time after the tick times the
  reference speed at the tick, over 3600; two running states with the same time
  and the same reference speed append the same reference, whatever happened to
  the reference speed before.
\<close>

theorem reference_path_independent:
  assumes "isRunning st1" and "isRunning st2"
    and "time st1 = time st2" and "referenceSpeed st1 = referenceSpeed st2"
  shows "reference_pt (last (chartData (tick st1))) = reference_pt (last (chartData (tick st2))) \<and>
         reference_pt (last (chartData (tick st1)))
           = js_div (js_mul (time (tick st1)) (referenceSpeed (tick st1))) (Fin 3600)"
  using assms by (simp add: tick_running)

text \<open>
  One tick at a reference speed of 6, and one tick at 7 followed by an edit to 6:
  the references of the first samples differ, those of the second samples are the
  same.
\<close>

theorem reference_path_independent_witness:
  "reference_pt (last (chartData (tick (run [Start, Tick] init))))
     = reference_pt (last (chartData (tick (run [ReferenceEntry (Fin 7), Start, Tick,
                                                 ReferenceEntry (Fin 6)] init)))) \<and>
   reference_pt (last (chartData (run [Start, Tick] init)))
     \<noteq> reference_pt (last (chartData (run [ReferenceEntry (Fin 7), Start, Tick,
                                           ReferenceEntry (Fin 6)] init)))"
  using reference_path_independent [where ?st1.0 = "run [Start, Tick] init"
      and ?st2.0 = "run [ReferenceEntry (Fin 7), Start, Tick, ReferenceEntry (Fin 6)] init"]
  by (simp add: init_def control_defs fl_ints fl_examples)

section \<open>The history and its clock\<close>











section \<open>The latest sample\<close>

text \<open>
  C10: in every state reached from the initial one the history is not empty and
  its last sample carries the clock and the distance of the state; in particular
  this holds right after a tick.
\<close>

theorem latest_sample_consistent:
  "chartData (run es init) \<noteq> [] \<and>
   time_pt (last (chartData (run es init))) = time (run es init) \<and>
   distance_pt (last (chartData (run es init))) = distance (run es init) \<and>
   (isRunning st \<longrightarrow>
      time_pt (last (chartData (tick st))) = time (tick st) \<and>
      distance_pt (last (chartData (tick st))) = distance (tick st))"
proof -
  have "chartData (run es init) \<noteq> [] \<and>
        time_pt (last (chartData (run es init))) = time (run es init) \<and>
        distance_pt (last (chartData (run es init))) = distance (run es init)"
  proof (induction es rule: rev_induct)
    case Nil
    show ?case by (simp add: init_def)
  next
    case (snoc e es)
    then show ?case
      by (simp add: run_snoc step_chartData step_time step_distance)
  qed
  then show ?thesis
    by (simp add: tick_running)
qed

text \<open>Two ticks with a change of speed between them.\<close>

theorem latest_sample_consistent_witness:
  "time_pt (last (chartData (run [Start, Tick, SpeedPlus, Tick] init))) = Fin 2 \<and>
   time (run [Start, Tick, SpeedPlus, Tick] init) = Fin 2 \<and>
   distance_pt (last (chartData (run [Start, Tick, SpeedPlus, Tick] init)))
     = distance (run [Start, Tick, SpeedPlus, Tick] init)"
  using latest_sample_consistent [where es = "[Start, Tick, SpeedPlus, Tick]" and st = init]
  by (simp add: init_def control_defs fl_ints)

section \<open>Non-numeric entries\<close>

lemma catchUpTime_not_NaN: "catchUpTime st \<noteq> Inr (Some NaN)"
  by (auto simp: catchUpTime_def split: list.splits dest: js_gt_not_NaN)

lemma requiredSpeed_not_NaN: "requiredSpeed st \<noteq> Some NaN"
  by (auto simp: requiredSpeed_def dest: js_gt_not_NaN)

text \<open>
  C6, as the code has it: an empty field is stored as \<open>NaN\<close> (no default is
  substituted). With a \<open>NaN\<close> reference speed both estimates are "not applicable";
  with a \<open>NaN\<close> target time the required speed is "not applicable", and the
  catch-up estimate, which does not read the target time, is what it is for any
  other target; no estimate is ever \<open>NaN\<close>.
\<close>

theorem nan_not_applicable:
  "targetTime (targetTimeEntry NaN st) = NaN \<and>
   referenceSpeed (referenceSpeedEntry NaN st) = NaN \<and>
   (referenceSpeed st = NaN \<longrightarrow> catchUpTime st = Inr None \<and> requiredSpeed st = None) \<and>
   (targetTime st = NaN \<longrightarrow> requiredSpeed st = None) \<and>
   catchUpTime (st \<lparr> targetTime := x \<rparr>) = catchUpTime st \<and>
   catchUpTime st \<noteq> Inr (Some NaN) \<and> requiredSpeed st \<noteq> Some NaN"
proof -
  have entry: "targetTime (targetTimeEntry NaN st) = NaN"
    "referenceSpeed (referenceSpeedEntry NaN st) = NaN"
    by (simp_all add: targetTimeEntry_def referenceSpeedEntry_def)
  have ref: "referenceSpeed st = NaN \<longrightarrow> catchUpTime st = Inr None \<and> requiredSpeed st = None"
    by (simp add: catchUpTime_def requiredSpeed_def requiredSpeedValue_def distanceToGo_def
        js_gt_NaN_right js_sub_NaN)
  have tgt: "targetTime st = NaN \<longrightarrow> requiredSpeed st = None"
    by (simp add: requiredSpeed_def remainingTime_def js_sub_NaN)
  have indep: "catchUpTime (st \<lparr> targetTime := x \<rparr>) = catchUpTime st"
    by (simp add: catchUpTime_def catchUpTimeSeconds_def distanceDiff_def speedDiff_def
        split: list.splits)
  show ?thesis
    using entry ref tgt indep catchUpTime_not_NaN [of st] requiredSpeed_not_NaN [of st]
    by blast
qed

text \<open>The two fields emptied, one at a time, in the initial state.\<close>

theorem nan_not_applicable_witness:
  "catchUpTime (run [ReferenceEntry NaN] init) = Inr None \<and>
   requiredSpeed (run [ReferenceEntry NaN] init) = None \<and>
   requiredSpeed (run [TargetEntry NaN] init) = None"
  using nan_not_applicable [where st = "run [ReferenceEntry NaN] init"]
    nan_not_applicable [where st = "run [TargetEntry NaN] init"]
  by (simp add: init_def control_defs)

text \<open>Repeated clicks on the plus button of the speed: each adds between 0.099 and 0.101.\<close>

lemma plus_bound:
  assumes "0 \<le> s" and "s \<le> 8"
  shows "\<exists>s'. js_max (Fin 0) (js_add (Fin s) (fl (1 / 10))) = Fin s' \<and>
              s + 99 / 1000 \<le> s' \<and> s' \<le> s + 101 / 1000"
proof -
  let ?t = "3602879701896397 / 36028797018963968 :: real"
  let ?x = "s + ?t"
  have x: "0 < ?x" "?x \<le> 9" using assms by simp_all
  have "\<bar>?x\<bar> \<le> 2 ^ 1023"
  proof -
    have "\<bar>?x\<bar> \<le> 9" using x by simp
    also have "(9::real) \<le> 2 ^ 1023" by simp
    finally show ?thesis .
  qed
  from fl_error [OF this] obtain y where y: "fl ?x = Fin y"
    and e: "\<bar>y - ?x\<bar> \<le> \<bar>?x\<bar> / 2 ^ 53 + 2 powi (- 1075)" by blast
  have "\<bar>?x\<bar> / 2 ^ 53 \<le> 9 / 2 ^ 53" using x by (simp add: divide_right_mono)
  with e eta_le have "y \<le> ?x + 9 / 2 ^ 53 + 1 / 2 ^ 60" "?x - 9 / 2 ^ 53 - 1 / 2 ^ 60 \<le> y"
    by linarith+
  then have b: "s + 99 / 1000 \<le> y" "y \<le> s + 101 / 1000" by simp_all
  then have "0 \<le> y" using assms by simp
  then show ?thesis using y b by (simp add: tenth js_max_zero_Fin)
qed

lemma speed_plus_run:
  "speed st = Fin 5 \<Longrightarrow> n \<le> 20 \<Longrightarrow>
   \<exists>s. speed (run (replicate n SpeedPlus) st) = Fin s \<and>
       5 + real n * (99 / 1000) \<le> s \<and> s \<le> 5 + real n * (101 / 1000)"
proof (induction n)
  case 0
  then show ?case by simp
next
  case (Suc n)
  from Suc obtain s1 where s1: "speed (run (replicate n SpeedPlus) st) = Fin s1"
    "5 + real n * (99 / 1000) \<le> s1" "s1 \<le> 5 + real n * (101 / 1000)" by auto
  have "real n \<le> 20" using Suc.prems by simp
  then have "0 \<le> s1" "s1 \<le> 8" using s1(2,3) by simp_all
  from plus_bound [OF this] obtain s2
    where s2: "js_max (Fin 0) (js_add (Fin s1) (fl (1 / 10))) = Fin s2"
      "s1 + 99 / 1000 \<le> s2" "s2 \<le> s1 + 101 / 1000" by blast
  have "speed (run (replicate (Suc n) SpeedPlus) st) = Fin s2"
    by (simp only: replicate_snoc run_snoc step.simps handleSpeedChange_def) (simp add: s1 s2)
  moreover have "5 + real (Suc n) * (99 / 1000) \<le> s2" "s2 \<le> 5 + real (Suc n) * (101 / 1000)"
    using s2(2,3) s1(2,3) by (simp_all add: field_simps)
  ultimately show ?case by blast
qed

lemma run_SpeedPlus_keeps:
  "chartData (run (replicate n SpeedPlus) st) = chartData st \<and>
   referenceSpeed (run (replicate n SpeedPlus) st) = referenceSpeed st"
  by (induction n arbitrary: st) (simp_all add: handleSpeedChange_def)

lemma catch_up_level:
  assumes "speed st = Fin s" and "61 / 10 \<le> s" and "s \<le> 8" and "referenceSpeed st = Fin 6"
    and "chartData st = [\<lparr> time_pt = Fin 0, distance_pt = Fin 0, reference_pt = Fin 0 \<rparr>]"
  shows "catchUpTime st = Inr (Some (Fin 0))"
proof -
  let ?x = "s - 6"
  have "\<bar>?x\<bar> \<le> 2 ^ 1023"
  proof -
    have "\<bar>?x\<bar> \<le> 2" using assms(2,3) by simp
    also have "(2::real) \<le> 2 ^ 1023" by simp
    finally show ?thesis .
  qed
  from fl_error [OF this] obtain y where y: "fl ?x = Fin y"
    and e: "\<bar>y - ?x\<bar> \<le> \<bar>?x\<bar> / 2 ^ 53 + 2 powi (- 1075)" by blast
  have "\<bar>?x\<bar> / 2 ^ 53 \<le> 2 / 2 ^ 53" using assms(2,3) by (simp add: divide_right_mono)
  with e eta_le have "?x - 2 / 2 ^ 53 - 1 / 2 ^ 60 \<le> y" by linarith
  then have y0: "0 < y" using assms(2) by simp
  have sd: "speedDiff st = Fin y" by (simp add: speedDiff_def assms(1,4) js_sub_def y)
  have dd: "distanceDiff st = Fin 0" by (simp add: distanceDiff_def assms(5) js_sub_def fl_zero)
  have "catchUpTimeSeconds st = Fin 0"
    using y0 by (simp add: catchUpTimeSeconds_def sd dd fl_zero)
  then show ?thesis
    using assms(1,2,4,5) by (simp add: catchUpTime_def)
qed

text \<open>
  Twelve clicks on the plus button of the speed take it above the reference
  speed; with the field of the target time then emptied, the target time is
  \<open>NaN\<close> and the catch-up estimate is 0, not "not applicable".
\<close>

theorem nan_target_catch_up_counterexample:
  "targetTime (run (replicate 12 SpeedPlus @ [TargetEntry NaN]) init) = NaN \<and>
   catchUpTime (run (replicate 12 SpeedPlus @ [TargetEntry NaN]) init) = Inr (Some (Fin 0))"
proof -
  let ?st = "run (replicate 12 SpeedPlus) init"
  have "\<exists>s. speed ?st = Fin s \<and> 5 + real 12 * (99 / 1000) \<le> s \<and> s \<le> 5 + real 12 * (101 / 1000)"
    by (rule speed_plus_run) (simp_all add: init_def)
  then obtain s where s: "speed ?st = Fin s" "61 / 10 \<le> s" "s \<le> 8" by auto
  have h: "chartData ?st = chartData init" "referenceSpeed ?st = referenceSpeed init"
    using run_SpeedPlus_keeps [of 12 init] by simp_all
  let ?fin = "targetTimeEntry NaN ?st"
  have "catchUpTime ?fin = Inr (Some (Fin 0))"
  proof (rule catch_up_level [where s = s])
    show "speed ?fin = Fin s" by (simp add: targetTimeEntry_def s)
    show "61 / 10 \<le> s" by (rule s)
    show "s \<le> 8" by (rule s)
    show "referenceSpeed ?fin = Fin 6" by (simp add: targetTimeEntry_def h) (simp add: init_def)
    show "chartData ?fin = [\<lparr> time_pt = Fin 0, distance_pt = Fin 0, reference_pt = Fin 0 \<rparr>]"
      by (simp add: targetTimeEntry_def h) (simp add: init_def)
  qed
  moreover have "targetTime ?fin = NaN" by (simp add: targetTimeEntry_def)
  ultimately show ?thesis by (simp only: run_append run.simps step.simps)
qed

section \<open>Editing the target time\<close>

lemma minus_floor: "targetTime st \<noteq> NaN \<Longrightarrow> js_ge (targetTime (targetTimeMinus st)) (Fin 60)"
  by (simp add: targetTimeMinus_def js_max_ge js_sub_not_NaN)

lemma plus_ge: "js_ge a (Fin 0) \<Longrightarrow> js_ge (js_add a (Fin 60)) (Fin 60)"
proof (cases a)
  case (Fin p)
  assume "js_ge a (Fin 0)"
  then have "60 \<le> p + 60" using Fin by (simp add: js_ge_def js_le_def)
  from fl_ge [OF _ _ this] show ?thesis
    using Fin by (auto simp: fl_ints js_ge_def js_le_def)
qed (simp_all add: js_ge_def js_le_def)

lemma plus_lt: "js_le a (Fin (- 1)) \<Longrightarrow> \<not> js_ge (js_add a (Fin 60)) (Fin 60)"
proof (cases a)
  case (Fin p)
  assume "js_le a (Fin (- 1))"
  then have p: "p + 60 \<le> 59" using Fin by (simp add: js_le_def)
  show ?thesis
  proof (cases "0 < p + 60")
    case True
    from fl_le [OF True p, of 59] show ?thesis
      using Fin by (auto simp: fl_ints js_ge_def js_le_def)
  next
    case False
    then have "p + 60 \<le> 0" by simp
    from fl_nonpos [OF this] show ?thesis
      using Fin by (auto simp: js_ge_def js_le_def)
  qed
qed (simp_all add: js_ge_def js_le_def)

text \<open>
  C7, as the code has it: the minus button stores
  \<^verbatim>\<open>Math.max(60, targetTime - 60)\<close>, at least 60 for every prior value but \<open>NaN\<close>;
  the plus button stores \<^verbatim>\<open>targetTime + 60\<close> with no floor, which is at least 60
  when the prior value is at least 0 and is not when the prior value is at most
  - 1; after a \<open>NaN\<close> both buttons store \<open>NaN\<close>; a direct entry stores the parsed
  number times 60, unclamped: \<open>m * 60\<close> for \<open>m\<close> minutes.
\<close>

theorem target_time_edits:
  "targetTime (targetTimeMinus st) = js_max (Fin 60) (js_sub (targetTime st) (Fin 60)) \<and>
   (targetTime st \<noteq> NaN \<longrightarrow> js_ge (targetTime (targetTimeMinus st)) (Fin 60)) \<and>
   targetTime (targetTimePlus st) = js_add (targetTime st) (Fin 60) \<and>
   (js_ge (targetTime st) (Fin 0) \<longrightarrow> js_ge (targetTime (targetTimePlus st)) (Fin 60)) \<and>
   (js_le (targetTime st) (Fin (- 1)) \<longrightarrow> \<not> js_ge (targetTime (targetTimePlus st)) (Fin 60)) \<and>
   (targetTime st = NaN \<longrightarrow>
      targetTime (targetTimeMinus st) = NaN \<and> targetTime (targetTimePlus st) = NaN) \<and>
   targetTime (targetTimeEntry parsed st) = js_mul parsed (Fin 60) \<and>
   (\<bar>m * 60\<bar> \<le> 2 ^ 53 \<longrightarrow>
      targetTime (targetTimeEntry (Fin (of_int m)) st) = Fin (of_int (m * 60)))"
proof -
  have nan: "targetTime st = NaN \<longrightarrow>
      targetTime (targetTimeMinus st) = NaN \<and> targetTime (targetTimePlus st) = NaN"
    by (simp add: targetTimeMinus_def targetTimePlus_def js_max_def js_sub_def)
  have entry: "\<bar>m * 60\<bar> \<le> 2 ^ 53 \<longrightarrow>
      targetTime (targetTimeEntry (Fin (of_int m)) st) = Fin (of_int (m * 60))"
    using fl_int [of "m * 60"] by (simp add: targetTimeEntry_def)
  have defs: "targetTime (targetTimeMinus st) = js_max (Fin 60) (js_sub (targetTime st) (Fin 60))"
    "targetTime (targetTimePlus st) = js_add (targetTime st) (Fin 60)"
    "targetTime (targetTimeEntry parsed st) = js_mul parsed (Fin 60)"
    by (simp_all add: targetTimeMinus_def targetTimePlus_def targetTimeEntry_def)
  have plus: "js_ge (targetTime st) (Fin 0) \<longrightarrow> js_ge (targetTime (targetTimePlus st)) (Fin 60)"
    "js_le (targetTime st) (Fin (- 1)) \<longrightarrow> \<not> js_ge (targetTime (targetTimePlus st)) (Fin 60)"
    by (simp_all add: targetTimePlus_def plus_ge plus_lt)
  show ?thesis
    using defs minus_floor [of st] plus nan entry by blast
qed

text \<open>The three edits of a target time of 90 seconds.\<close>

theorem target_time_edits_witness:
  "js_ge (targetTime (targetTimeMinus (init \<lparr> targetTime := Fin 90 \<rparr>))) (Fin 60) \<and>
   targetTime (targetTimeMinus (init \<lparr> targetTime := Fin 90 \<rparr>)) = Fin 60 \<and>
   targetTime (targetTimePlus (init \<lparr> targetTime := Fin 90 \<rparr>)) = Fin 150 \<and>
   targetTime (targetTimeEntry (Fin 2) (init \<lparr> targetTime := Fin 90 \<rparr>)) = Fin 120"
  using target_time_edits [where st = "init \<lparr> targetTime := Fin 90 \<rparr>" and m = 2 and parsed = "Fin 2"]
  by (simp add: js_ge_def js_le_def js_sub_def js_max_def fl_ints)

text \<open>
  After - 1 is typed as the target time, the plus button stores 0; after the field
  is emptied, both buttons store \<open>NaN\<close>; neither is at least 60.
\<close>

theorem target_plus_below_floor_counterexample:
  "targetTime (run [TargetEntry (Fin (- 1)), TargetPlus] init) = Fin 0 \<and>
   \<not> js_ge (targetTime (run [TargetEntry (Fin (- 1)), TargetPlus] init)) (Fin 60) \<and>
   targetTime (run [TargetEntry NaN, TargetMinus] init) = NaN \<and>
   \<not> js_ge (targetTime (run [TargetEntry NaN, TargetMinus] init)) (Fin 60) \<and>
   targetTime (run [TargetEntry NaN, TargetPlus] init) = NaN \<and>
   \<not> js_ge (targetTime (run [TargetEntry NaN, TargetPlus] init)) (Fin 60)"
  by (simp add: targetTimeEntry_def targetTimePlus_def targetTimeMinus_def js_ge_def js_le_def
      js_max_def js_sub_def fl_ints)

section \<open>The range of the speeds\<close>

lemma adjust_plus_finite:
  assumes "nonneg_finite x"
  shows "nonneg_finite (js_max (Fin 0) (js_add x (fl (1 / 10))))"
proof -
  from assms obtain r where x: "x = Fin r" and r: "0 \<le> r" "r \<le> max_value"
    by (cases x) auto
  let ?t = "3602879701896397 / 36028797018963968 :: real"
  have pos: "0 < r + ?t" using r by simp
  have le: "r + ?t \<le> max_value + 1" using r by simp
  from fl_le [OF pos le fl_max_value] obtain y
    where y: "fl (r + ?t) = Fin y" "0 \<le> y" "y \<le> max_value" by blast
  then show ?thesis by (simp add: x tenth js_max_zero_Fin)
qed

lemma adjust_minus_finite:
  assumes "nonneg_finite x"
  shows "nonneg_finite (js_max (Fin 0) (js_add x (js_neg (fl (1 / 10)))))"
proof -
  from assms obtain r where x: "x = Fin r" and r: "0 \<le> r" "r \<le> max_value"
    by (cases x) auto
  let ?t = "3602879701896397 / 36028797018963968 :: real"
  show ?thesis
  proof (cases "0 < r - ?t")
    case True
    have le: "r - ?t \<le> max_value + 1" using r by simp
    from fl_le [OF True le fl_max_value] obtain y
      where y: "fl (r - ?t) = Fin y" "0 \<le> y" "y \<le> max_value" by blast
    then show ?thesis by (simp add: x tenth js_max_zero_Fin)
  next
    case False
    then have "r - ?t \<le> 0" by simp
    from fl_nonpos [OF this] show ?thesis
      by (auto simp: x tenth js_max_def max_value_pos)
  qed
qed

lemma step_speed_finite: "nonneg_finite (speed st) \<Longrightarrow> nonneg_finite (speed (step e st))"
  by (cases e) (simp_all add: control_defs adjust_plus_finite adjust_minus_finite)

lemma step_referenceSpeed_finite:
  "nonneg_finite (referenceSpeed st) \<Longrightarrow> nonneg_entry e \<Longrightarrow>
   nonneg_finite (referenceSpeed (step e st))"
  by (cases e) (simp_all add: control_defs adjust_plus_finite adjust_minus_finite)

lemma run_speed_finite: "nonneg_finite (speed (run es init))"
proof (induction es rule: rev_induct)
  case Nil
  show ?case by (simp add: init_def max_value_def)
next
  case (snoc e es)
  then show ?case by (simp add: run_snoc step_speed_finite)
qed

lemma run_referenceSpeed_finite:
  "\<forall>e \<in> set es. nonneg_entry e \<Longrightarrow> nonneg_finite (referenceSpeed (run es init))"
proof (induction es rule: rev_induct)
  case Nil
  show ?case by (simp add: init_def max_value_def)
next
  case (snoc e es)
  then show ?case by (simp add: run_snoc step_referenceSpeed_finite)
qed

text \<open>
  C8: for every delta and every prior value, \<open>handleSpeedChange\<close> sets the speed to
  \<^verbatim>\<open>Math.max(0, speed + delta)\<close> and \<open>handleReferenceSpeedChange\<close> does the same to
  the reference speed; on finite numbers that is the double nearest to
  \<open>max 0 (speed + delta)\<close>. Both are total functions returning a state, and the
  result is zero when the sum is zero.
\<close>

theorem adjust_speed_floor_zero:
  "speed (handleSpeedChange change st) = js_max (Fin 0) (js_add (speed st) change) \<and>
   referenceSpeed (handleReferenceSpeedChange change st)
     = js_max (Fin 0) (js_add (referenceSpeed st) change) \<and>
   speed (handleSpeedChange (Fin d) (st \<lparr> speed := Fin s \<rparr>)) = fl (max 0 (s + d)) \<and>
   referenceSpeed (handleReferenceSpeedChange (Fin d) (st \<lparr> referenceSpeed := Fin r \<rparr>))
     = fl (max 0 (r + d)) \<and>
   speed (handleSpeedChange (Fin (- s)) (st \<lparr> speed := Fin s \<rparr>)) = Fin 0 \<and>
   referenceSpeed (handleReferenceSpeedChange (Fin (- r)) (st \<lparr> referenceSpeed := Fin r \<rparr>)) = Fin 0"
  by (simp add: handleSpeedChange_def handleReferenceSpeedChange_def js_max_fl fl_zero)
    (simp add: js_max_def)

text \<open>A decrement at speed 0, and one at the reference speed 6.\<close>

theorem adjust_speed_floor_zero_witness:
  "speed (handleSpeedChange (Fin (- 1)) (init \<lparr> speed := Fin 0 \<rparr>)) = Fin 0 \<and>
   referenceSpeed (handleReferenceSpeedChange (Fin (- 1)) (init \<lparr> referenceSpeed := Fin 6 \<rparr>))
     = Fin 5"
  using adjust_speed_floor_zero [where d = "- 1" and st = init and s = 0 and r = 6]
  by (simp add: fl_ints)

text \<open>
  C9, as the code has it: in every state reached from the initial one the speed is
  a finite number that is not negative; so is the reference speed as long as no
  direct entry has stored anything else; a direct entry stores what was parsed,
  whatever it is.
\<close>

theorem speeds_nonnegative:
  "nonneg_real (speed (run es init)) \<and> nonneg_finite (speed (run es init)) \<and>
   ((\<forall>e \<in> set es. nonneg_entry e) \<longrightarrow>
      nonneg_real (referenceSpeed (run es init)) \<and> nonneg_finite (referenceSpeed (run es init))) \<and>
   referenceSpeed (step (ReferenceEntry parsed) st) = parsed"
  using run_speed_finite [of es] run_referenceSpeed_finite [of es]
  by (simp add: referenceSpeedEntry_def nonneg_finite_real)

text \<open>A reference speed of 0 typed, a start and a tick.\<close>

theorem speeds_nonnegative_witness:
  "nonneg_real (speed (run [ReferenceEntry (Fin 0), Start, Tick] init)) \<and>
   nonneg_real (referenceSpeed (run [ReferenceEntry (Fin 0), Start, Tick] init)) \<and>
   referenceSpeed (run [ReferenceEntry (Fin 0), Start, Tick] init) = Fin 0"
  using speeds_nonnegative [where es = "[ReferenceEntry (Fin 0), Start, Tick]"]
  by (simp add: init_def control_defs max_value_def)

text \<open>Repeated clicks on a minus button: each takes off at least 0.099, down to zero.\<close>

lemma minus_bound:
  assumes "0 \<le> s" and "s \<le> 8"
  shows "\<exists>s'. js_max (Fin 0) (js_add (Fin s) (js_neg (fl (1 / 10)))) = Fin s' \<and>
              0 \<le> s' \<and> s' \<le> max 0 (s - 99 / 1000)"
proof -
  let ?t = "3602879701896397 / 36028797018963968 :: real"
  let ?x = "s - ?t"
  show ?thesis
  proof (cases "0 < ?x")
    case True
    have "\<bar>?x\<bar> \<le> 2 ^ 1023"
    proof -
      have "\<bar>?x\<bar> \<le> 8" using True assms by simp
      also have "(8::real) \<le> 2 ^ 1023" by simp
      finally show ?thesis .
    qed
    from fl_error [OF this] obtain y where y: "fl ?x = Fin y"
      and e: "\<bar>y - ?x\<bar> \<le> \<bar>?x\<bar> / 2 ^ 53 + 2 powi (- 1075)" by blast
    have "\<bar>?x\<bar> / 2 ^ 53 \<le> 8 / 2 ^ 53" using True assms by (simp add: divide_right_mono)
    with e eta_le have "y \<le> ?x + 8 / 2 ^ 53 + 1 / 2 ^ 60" by linarith
    then have ub: "y \<le> s - 99 / 1000" by simp
    from fl_nonneg [of ?x] True y have y0: "0 \<le> y" by simp
    show ?thesis using y y0 ub by (simp add: tenth js_max_zero_Fin)
  next
    case False
    then have "?x \<le> 0" by simp
    from fl_nonpos [OF this] show ?thesis
      by (auto simp: tenth js_max_def)
  qed
qed

lemma speed_minus_run:
  "s \<le> 8 \<Longrightarrow> speed st = Fin s \<Longrightarrow> 0 \<le> s \<Longrightarrow>
   \<exists>s'. speed (run (replicate n SpeedMinus) st) = Fin s' \<and> 0 \<le> s' \<and>
        s' \<le> max 0 (s - real n * (99 / 1000))"
proof (induction n)
  case 0
  then show ?case by simp
next
  case (Suc n)
  from Suc obtain s1 where s1: "speed (run (replicate n SpeedMinus) st) = Fin s1" "0 \<le> s1"
    "s1 \<le> max 0 (s - real n * (99 / 1000))" by blast
  then have "s1 \<le> 8" using Suc.prems by (simp add: max_def split: if_splits) 
  from minus_bound [OF s1(2) this] obtain s2
    where s2: "js_max (Fin 0) (js_add (Fin s1) (js_neg (fl (1 / 10)))) = Fin s2" "0 \<le> s2"
      "s2 \<le> max 0 (s1 - 99 / 1000)" by blast
  have "speed (run (replicate (Suc n) SpeedMinus) st) = Fin s2"
    by (simp only: replicate_snoc run_snoc step.simps handleSpeedChange_def) (simp add: s1 s2)
  moreover have "s2 \<le> max 0 (s - real (Suc n) * (99 / 1000))"
    using s2(3) s1(3) by (simp add: max_def field_simps split: if_splits)
  ultimately show ?case using s2(2) by blast
qed

lemma reference_minus_run:
  "s \<le> 8 \<Longrightarrow> referenceSpeed st = Fin s \<Longrightarrow> 0 \<le> s \<Longrightarrow>
   \<exists>s'. referenceSpeed (run (replicate n ReferenceMinus) st) = Fin s' \<and> 0 \<le> s' \<and>
        s' \<le> max 0 (s - real n * (99 / 1000))"
proof (induction n)
  case 0
  then show ?case by simp
next
  case (Suc n)
  from Suc obtain s1 where s1: "referenceSpeed (run (replicate n ReferenceMinus) st) = Fin s1" "0 \<le> s1"
    "s1 \<le> max 0 (s - real n * (99 / 1000))" by blast
  then have "s1 \<le> 8" using Suc.prems by (simp add: max_def split: if_splits) 
  from minus_bound [OF s1(2) this] obtain s2
    where s2: "js_max (Fin 0) (js_add (Fin s1) (js_neg (fl (1 / 10)))) = Fin s2" "0 \<le> s2"
      "s2 \<le> max 0 (s1 - 99 / 1000)" by blast
  have "referenceSpeed (run (replicate (Suc n) ReferenceMinus) st) = Fin s2"
    by (simp only: replicate_snoc run_snoc step.simps handleReferenceSpeedChange_def)
      (simp add: s1 s2)
  moreover have "s2 \<le> max 0 (s - real (Suc n) * (99 / 1000))"
    using s2(3) s1(3) by (simp add: max_def field_simps split: if_splits)
  ultimately show ?case using s2(2) by blast
qed

text \<open>
  A reference speed of - 3 typed, or the field emptied, and 51 decrements of the
  speed or 61 of the reference speed: none leaves a positive real.
\<close>

theorem speeds_not_positive_counterexample:
  "\<not> positive_real (referenceSpeed (run [ReferenceEntry (Fin (- 3))] init)) \<and>
   \<not> positive_real (referenceSpeed (run [ReferenceEntry NaN] init)) \<and>
   \<not> positive_real (speed (run (replicate 51 SpeedMinus) init)) \<and>
   \<not> positive_real (referenceSpeed (run (replicate 61 ReferenceMinus) init))"
proof -
  have "\<exists>s'. speed (run (replicate 51 SpeedMinus) init) = Fin s' \<and> 0 \<le> s' \<and>
        s' \<le> max 0 (5 - real 51 * (99 / 1000))"
    by (rule speed_minus_run) (simp_all add: init_def)
  then have 1: "\<not> positive_real (speed (run (replicate 51 SpeedMinus) init))"
    by auto
  have "\<exists>s'. referenceSpeed (run (replicate 61 ReferenceMinus) init) = Fin s' \<and> 0 \<le> s' \<and>
        s' \<le> max 0 (6 - real 61 * (99 / 1000))"
    by (rule reference_minus_run) (simp_all add: init_def)
  then have 2: "\<not> positive_real (referenceSpeed (run (replicate 61 ReferenceMinus) init))"
    by auto
  have 3: "\<not> positive_real (referenceSpeed (run [ReferenceEntry (Fin (- 3))] init))"
    "\<not> positive_real (referenceSpeed (run [ReferenceEntry NaN] init))"
    by (simp_all add: referenceSpeedEntry_def)
  show ?thesis using 1 2 3 by blast
qed

end
